theory Spec2Isabelle
  imports Main "HOL-Library.AList"
begin

section \<open>Python values and exceptions\<close>

text \<open>
  The values that flow through \<^verbatim>\<open>motor_odm/document.py\<close>: \<^verbatim>\<open>None\<close>, booleans, integers,
  strings, BSON object ids and dictionaries (in insertion order, a key at most once). Any
  other object (a database, codec options, a read preference, a write or read concern) is
  opaque and only known by its identity.
\<close>

datatype pyval =
    PNone
  | PBool bool
  | PInt int
  | PStr string
  | PObjectId nat
  | PObject nat
  | PDict "(string \<times> pyval) list"

type_synonym doc = "(string \<times> pyval) list"

text \<open>Python's truth test, as used by \<^verbatim>\<open>if result.upserted_id:\<close> and \<^verbatim>\<open>if doc\<close>.\<close>

fun truthy :: "pyval \<Rightarrow> bool" where
  "truthy PNone = False"
| "truthy (PBool b) = b"
| "truthy (PInt i) = (i \<noteq> 0)"
| "truthy (PStr s) = (s \<noteq> [])"
| "truthy (PObjectId k) = True"
| "truthy (PObject k) = True"
| "truthy (PDict d) = (d \<noteq> [])"

text \<open>Every raise of the module is a value: the exception class with what identifies it.\<close>

datatype error =
    TypeError string
  | AttributeError string
  | AssertionError
  | ValidationError nat
  | StoreError nat

section \<open>Storage configuration: \<^verbatim>\<open>MongoBase\<close> and the inner \<^verbatim>\<open>Mongo\<close> classes\<close>

text \<open>
  A \<^verbatim>\<open>Mongo\<close> class is read through five attributes. An attribute of a Python class is
  either not there (\<open>None\<close>: \<^verbatim>\<open>hasattr\<close> is false), or bound to a value, which may be
  Python's \<^verbatim>\<open>None\<close> (\<open>Some PNone\<close>).
\<close>

record mongo_type =
  collection :: "pyval option"
  codec_options :: "pyval option"
  read_preference :: "pyval option"
  write_concern :: "pyval option"
  read_concern :: "pyval option"

text \<open>
  \<^verbatim>\<open>MongoBase\<close> only annotates \<^verbatim>\<open>collection\<close> (no attribute exists) and binds the other
  four attributes to \<^verbatim>\<open>None\<close>.
\<close>

definition MongoBase :: mongo_type where
  "MongoBase =
     \<lparr>collection = None, codec_options = Some PNone, read_preference = Some PNone,
      write_concern = Some PNone, read_concern = Some PNone\<rparr>"

datatype mongo_field = Collection | CodecOptions | ReadPreference | WriteConcern | ReadConcern

fun getattr :: "mongo_type \<Rightarrow> mongo_field \<Rightarrow> pyval option" where
  "getattr m Collection = collection m"
| "getattr m CodecOptions = codec_options m"
| "getattr m ReadPreference = read_preference m"
| "getattr m WriteConcern = write_concern m"
| "getattr m ReadConcern = read_concern m"

text \<open>A field is null when the attribute is missing or bound to \<^verbatim>\<open>None\<close>.\<close>

definition is_null :: "pyval option \<Rightarrow> bool" where
  "is_null a = (a = None \<or> a = Some PNone)"

definition overlay_attr :: "pyval option \<Rightarrow> pyval option \<Rightarrow> pyval option" where
  "overlay_attr own inherited = (if is_null own then inherited else own)"

text \<open>
  Modelled from the spec: \<^verbatim>\<open>motor_odm.helpers.inherit_class\<close> is imported by
  \<^verbatim>\<open>document.py\<close> but its module is not among the sources. Section 4.1 of the specification
  describes the merge it performs: the declared overrides are overlaid on the configuration
  merged so far "field-by-field, skipping null fields"; a type that declares no overrides
  (\<^verbatim>\<open>namespace.get("Mongo")\<close> is \<^verbatim>\<open>None\<close>) inherits the configuration unchanged. The first
  argument is the name of the class that is created.
\<close>

definition inherit_class :: "string \<Rightarrow> mongo_type option \<Rightarrow> mongo_type \<Rightarrow> mongo_type" where
  "inherit_class name self parent =
     (case self of
        None \<Rightarrow> parent
      | Some s \<Rightarrow>
          \<lparr>collection = overlay_attr (collection s) (collection parent),
           codec_options = overlay_attr (codec_options s) (codec_options parent),
           read_preference = overlay_attr (read_preference s) (read_preference parent),
           write_concern = overlay_attr (write_concern s) (write_concern parent),
           read_concern = overlay_attr (read_concern s) (read_concern parent)\<rparr>)"

section \<open>Classes and \<^verbatim>\<open>DocumentMetaclass.__new__\<close>\<close>

text \<open>
  The part of a class body the metaclass reads: \<^verbatim>\<open>__module__\<close>, \<^verbatim>\<open>__qualname__\<close>, the inner
  class \<^verbatim>\<open>Mongo\<close> and the key \<^verbatim>\<open>__mongo__\<close> (which the metaclass itself supplies when the
  body does not bind it).
\<close>

record namespace =
  ns_module :: "string option"
  ns_qualname :: "string option"
  ns_Mongo :: "mongo_type option"
  ns_dunder_mongo :: "mongo_type option"

text \<open>
  A class object is pydantic's \<^verbatim>\<open>BaseModel\<close>, a class that has nothing to do with documents
  (a mixin), or a class made from a name, its bases and its namespace.
\<close>

datatype pyclass =
    BaseModel
  | Foreign string
  | Class string "pyclass list" namespace

definition Document_namespace :: namespace where
  "Document_namespace =
     \<lparr>ns_module = Some ''motor_odm.document'', ns_qualname = Some ''Document'',
      ns_Mongo = None, ns_dunder_mongo = None\<rparr>"

text \<open>The class \<^verbatim>\<open>Document\<close> itself, as its class statement leaves it.\<close>

definition Document :: pyclass where
  "Document =
     Class ''Document'' [BaseModel] (Document_namespace\<lparr>ns_dunder_mongo := Some MongoBase\<rparr>)"

fun issubclass :: "pyclass \<Rightarrow> pyclass \<Rightarrow> bool" where
  "issubclass (Class n bases ns) d =
     (Class n bases ns = d \<or> list_ex (\<lambda>b. issubclass b d) bases)"
| "issubclass c d = (c = d)"

text \<open>\<^verbatim>\<open>base.__mongo__\<close>: an \<^verbatim>\<open>AttributeError\<close> where the class has no such attribute.\<close>

fun dunder_mongo :: "pyclass \<Rightarrow> error + mongo_type" where
  "dunder_mongo (Class n bases ns) =
     (case ns_dunder_mongo ns of
        Some m \<Rightarrow> Inr m
      | None \<Rightarrow> Inl (AttributeError ''__mongo__''))"
| "dunder_mongo c = Inl (AttributeError ''__mongo__'')"

text \<open>The guard of the loop over the bases (line 94).\<close>

definition document_subclass :: "pyclass \<Rightarrow> bool" where
  "document_subclass base =
     (base \<noteq> BaseModel \<and> base \<noteq> Document \<and> issubclass base Document)"

text \<open>
  The loop of lines 93 to 96 over a list of bases (the caller passes \<^verbatim>\<open>reversed(bases)\<close>),
  threading the local variable \<^verbatim>\<open>mongo\<close>.
\<close>

fun merge_bases :: "pyclass list \<Rightarrow> mongo_type \<Rightarrow> error + mongo_type" where
  "merge_bases [] mongo = Inr mongo"
| "merge_bases (base # rest) mongo =
     (if document_subclass base then
        (case dunder_mongo base of
           Inl e \<Rightarrow> Inl e
         | Inr bm \<Rightarrow> merge_bases rest (inherit_class ''Mongo'' (Some bm) mongo))
      else merge_bases rest mongo)"

text \<open>Lines 92 to 98: the value of \<^verbatim>\<open>mongo\<close> before the collection check.\<close>

definition resolve :: "pyclass list \<Rightarrow> namespace \<Rightarrow> error + mongo_type" where
  "resolve bases ns =
     (case merge_bases (rev bases) MongoBase of
        Inl e \<Rightarrow> Inl e
      | Inr mongo \<Rightarrow> Inr (inherit_class ''Mongo'' (ns_Mongo ns) mongo))"

definition is_Document_namespace :: "namespace \<Rightarrow> bool" where
  "is_Document_namespace ns =
     ((ns_module ns, ns_qualname ns) = (Some ''motor_odm.document'', Some ''Document''))"

text \<open>
  \<^verbatim>\<open>DocumentMetaclass.__new__\<close>. The class is built from \<^verbatim>\<open>{"__mongo__": mongo, **namespace}\<close>:
  a \<^verbatim>\<open>__mongo__\<close> bound in the body wins over the merged one. What pydantic's own metaclass
  does with the fields is outside this module.
\<close>

definition new :: "string \<Rightarrow> pyclass list \<Rightarrow> namespace \<Rightarrow> error + pyclass" where
  "new name bases ns =
     (case resolve bases ns of
        Inl e \<Rightarrow> Inl e
      | Inr mongo \<Rightarrow>
          if \<not> is_Document_namespace ns \<and> collection mongo = None
          then Inl (TypeError (name @ '' does not define a collection.''))
          else Inr (Class name bases
                 (ns\<lparr>ns_dunder_mongo :=
                      (case ns_dunder_mongo ns of None \<Rightarrow> Some mongo | Some m \<Rightarrow> Some m)\<rparr>)))"

subsection \<open>Hierarchies of declared classes\<close>

text \<open>
  A class is declared when it is \<^verbatim>\<open>BaseModel\<close>, a mixin, or the result of the metaclass on
  declared bases and a class body that does not bind \<^verbatim>\<open>__mongo__\<close> itself.
\<close>

fun declared :: "pyclass \<Rightarrow> bool" where
  "declared (Class n bases ns) =
     (list_all declared bases \<and>
      new n bases (ns\<lparr>ns_dunder_mongo := None\<rparr>) = Inr (Class n bases ns))"
| "declared c = True"

text \<open>
  The ancestor chain of a class, root first: the \<^verbatim>\<open>Mongo\<close> declarations in the order in
  which they are overlaid, the chains of the bases from the last base to the first,
  then the class's own declaration. With one base per class this is the list of the
  ancestors from the first subclass of \<^verbatim>\<open>Document\<close> down to the class.
\<close>

fun chain :: "pyclass \<Rightarrow> mongo_type option list" where
  "chain (Class n bases ns) =
     concat (map chain (filter document_subclass (rev bases))) @ [ns_Mongo ns]"
| "chain c = []"

text \<open>What a declaration says about a field, and whether it sets it (to a non-null value).\<close>

fun declared_attr :: "mongo_field \<Rightarrow> mongo_type option \<Rightarrow> pyval option" where
  "declared_attr f None = None"
| "declared_attr f (Some m) = getattr m f"

definition sets :: "mongo_field \<Rightarrow> mongo_type option \<Rightarrow> bool" where
  "sets f d = (\<not> is_null (declared_attr f d))"

text \<open>Overlaying a list of declarations, one after the other, on a configuration.\<close>

definition overlay_chain :: "mongo_type \<Rightarrow> mongo_type option list \<Rightarrow> mongo_type" where
  "overlay_chain m ds = foldl (\<lambda>acc d. inherit_class ''Mongo'' d acc) m ds"

subsection \<open>A hierarchy of three classes\<close>

text \<open>
  \<^verbatim>\<open>class A(Document)\<close> declares a collection and codec options, \<^verbatim>\<open>class B(A)\<close> declares
  another collection and \<^verbatim>\<open>codec_options = None\<close>, \<^verbatim>\<open>class C(B)\<close> has no inner \<^verbatim>\<open>Mongo\<close>
  class. The last class body declares codec options and no collection.
\<close>

definition example_A :: pyclass where
  "example_A =
     Class ''A'' [Document]
       \<lparr>ns_module = Some ''app.models'', ns_qualname = Some ''A'',
        ns_Mongo = Some \<lparr>collection = Some (PStr ''a''), codec_options = Some (PObject 1),
                         read_preference = None, write_concern = None, read_concern = None\<rparr>,
        ns_dunder_mongo = Some \<lparr>collection = Some (PStr ''a''), codec_options = Some (PObject 1),
                         read_preference = Some PNone, write_concern = Some PNone,
                         read_concern = Some PNone\<rparr>\<rparr>"

definition example_B :: pyclass where
  "example_B =
     Class ''B'' [example_A]
       \<lparr>ns_module = Some ''app.models'', ns_qualname = Some ''B'',
        ns_Mongo = Some \<lparr>collection = Some (PStr ''b''), codec_options = Some PNone,
                         read_preference = None, write_concern = None, read_concern = None\<rparr>,
        ns_dunder_mongo = Some \<lparr>collection = Some (PStr ''b''), codec_options = Some (PObject 1),
                         read_preference = Some PNone, write_concern = Some PNone,
                         read_concern = Some PNone\<rparr>\<rparr>"

definition example_C :: pyclass where
  "example_C =
     Class ''C'' [example_B]
       \<lparr>ns_module = Some ''app.models'', ns_qualname = Some ''C'',
        ns_Mongo = None,
        ns_dunder_mongo = Some \<lparr>collection = Some (PStr ''b''), codec_options = Some (PObject 1),
                         read_preference = Some PNone, write_concern = Some PNone,
                         read_concern = Some PNone\<rparr>\<rparr>"

definition no_collection_namespace :: namespace where
  "no_collection_namespace =
     \<lparr>ns_module = Some ''app.models'', ns_qualname = Some ''Draft'',
      ns_Mongo = Some \<lparr>collection = None, codec_options = Some (PObject 2),
                       read_preference = None, write_concern = None, read_concern = None\<rparr>,
      ns_dunder_mongo = None\<rparr>"

section \<open>The validation engine and the driver\<close>

text \<open>
  pydantic and the Motor driver are libraries outside the module. Of a pydantic field the
  module's calls depend on its name, its alias and its default (\<open>None\<close> for a required
  field, which has none).
\<close>

record model_field =
  f_name :: string
  f_alias :: string
  f_default :: "pyval option"

fun field_named :: "model_field list \<Rightarrow> string \<Rightarrow> model_field option" where
  "field_named [] k = None"
| "field_named (f # fs) k = (if f_name f = k then Some f else field_named fs k)"

text \<open>
  \<^verbatim>\<open>BaseModel.dict(by_alias=True, include=..., exclude=..., exclude_defaults=True)\<close>, as
  pydantic documents it and section 4.3 of the specification words it: the items of the
  instance's \<^verbatim>\<open>__dict__\<close> in order, without the keys the filters leave out and without the
  fields that hold their declared default, each under the alias of its field.
\<close>

definition allowed_key :: "string list option \<Rightarrow> string list option \<Rightarrow> string \<Rightarrow> bool" where
  "allowed_key incl excl k =
     ((case incl of None \<Rightarrow> True | Some ks \<Rightarrow> List.member ks k) \<and>
      (case excl of None \<Rightarrow> True | Some ks \<Rightarrow> \<not> List.member ks k))"

definition holds_default :: "model_field list \<Rightarrow> string \<Rightarrow> pyval \<Rightarrow> bool" where
  "holds_default fs k v =
     (case field_named fs k of None \<Rightarrow> False | Some f \<Rightarrow> f_default f = Some v)"

definition dict_key :: "model_field list \<Rightarrow> string \<Rightarrow> string" where
  "dict_key fs k = (case field_named fs k of None \<Rightarrow> k | Some f \<Rightarrow> f_alias f)"

text \<open>Whether an item of \<^verbatim>\<open>__dict__\<close> is yielded, and the key it is yielded under.\<close>

definition emitted ::
  "model_field list \<Rightarrow> string list option \<Rightarrow> string list option \<Rightarrow> string \<times> pyval \<Rightarrow> bool" where
  "emitted fs incl excl = (\<lambda>(k, v). allowed_key incl excl k \<and> \<not> holds_default fs k v)"

definition by_alias :: "model_field list \<Rightarrow> string \<times> pyval \<Rightarrow> string \<times> pyval" where
  "by_alias fs = (\<lambda>(k, v). (dict_key fs k, v))"

definition BaseModel_dict ::
  "model_field list \<Rightarrow> string list option \<Rightarrow> string list option \<Rightarrow> doc \<Rightarrow> doc" where
  "BaseModel_dict fs incl excl items =
     foldl (\<lambda>d item.
              if emitted fs incl excl item
              then AList.update (fst (by_alias fs item)) (snd (by_alias fs item)) d else d)
       [] items"

text \<open>
  A collection object, as \<^verbatim>\<open>db.get_collection(name, codec_options=..., ...)\<close> returns it:
  a new object that remembers its database and what it was configured with.
\<close>

record handle =
  h_ident :: nat
  h_database :: pyval
  h_name :: pyval
  h_codec_options :: pyval
  h_read_preference :: pyval
  h_write_concern :: pyval
  h_read_concern :: pyval

text \<open>What the module sends to the driver, in the order it sends it.\<close>

datatype request =
    InsertOne handle doc
  | ReplaceOne handle doc doc
  | UpdateOne handle doc doc
  | FindOne handle "doc option"
  | FindOneAndReplace handle doc doc bool

text \<open>
  The libraries and the interpreter, as the methods of \<^verbatim>\<open>Document\<close> use them. Nothing is
  assumed about them: the linearisation \<^verbatim>\<open>__mro__\<close> of a class (the class first), its pydantic
  fields, record construction \<^verbatim>\<open>cls(**doc)\<close> (the validated \<^verbatim>\<open>__dict__\<close> or an error), the
  validation of an assignment (\<^verbatim>\<open>validate_assignment = True\<close>), and the driver's answers, which
  may depend on everything sent before. An answer is the part of the result the module reads:
  \<^verbatim>\<open>inserted_id\<close>, \<^verbatim>\<open>upserted_id\<close>, \<^verbatim>\<open>modified_count\<close>, or the document found. The extra
  positional and keyword arguments of the methods go to the driver unchanged and are part of
  how it answers.
\<close>

record runtime =
  mro :: "pyclass \<Rightarrow> pyclass list"
  model_fields :: "pyclass \<Rightarrow> model_field list"
  construct :: "pyclass \<Rightarrow> doc \<Rightarrow> error + doc"
  validate_assignment :: "pyclass \<Rightarrow> string \<Rightarrow> pyval \<Rightarrow> error + pyval"
  insert_one :: "request list \<Rightarrow> handle \<Rightarrow> doc \<Rightarrow> error + pyval"
  replace_one :: "request list \<Rightarrow> handle \<Rightarrow> doc \<Rightarrow> doc \<Rightarrow> error + pyval"
  update_one :: "request list \<Rightarrow> handle \<Rightarrow> doc \<Rightarrow> doc \<Rightarrow> error + int"
  find_one :: "request list \<Rightarrow> handle \<Rightarrow> doc option \<Rightarrow> error + doc option"
  find_one_and_replace ::
    "request list \<Rightarrow> handle \<Rightarrow> doc \<Rightarrow> doc \<Rightarrow> bool \<Rightarrow> error + doc option"

section \<open>The state of the program\<close>

text \<open>An instance of a document class: its class and its \<^verbatim>\<open>__dict__\<close>.\<close>

record obj =
  o_class :: pyclass
  o_dict :: doc

text \<open>
  The class attributes \<^verbatim>\<open>__db__\<close> and \<^verbatim>\<open>__collection__\<close> that each class has in its own
  \<^verbatim>\<open>__dict__\<close>, the instances by reference, the next unused object identity, and the
  requests sent so far.
\<close>

record world =
  w_db :: "pyclass \<Rightarrow> pyval option"
  w_collection :: "pyclass \<Rightarrow> handle option option"
  w_heap :: "nat \<Rightarrow> obj"
  w_next :: nat
  w_log :: "request list"

text \<open>
  Before any call: only \<^verbatim>\<open>Document\<close> binds \<^verbatim>\<open>__collection__\<close> (to \<^verbatim>\<open>None\<close>, line 131), and
  no class binds \<^verbatim>\<open>__db__\<close> (line 130 is an annotation).
\<close>

definition initial_collection :: "pyclass \<Rightarrow> handle option option" where
  "initial_collection = (\<lambda>c. if c = Document then Some None else None)"

text \<open>Attribute lookup on a class: the first class of \<^verbatim>\<open>__mro__\<close> that binds the attribute.\<close>

fun class_attr :: "(pyclass \<Rightarrow> 'a option) \<Rightarrow> pyclass list \<Rightarrow> 'a option" where
  "class_attr own [] = None"
| "class_attr own (c # cs) = (case own c of Some v \<Rightarrow> Some v | None \<Rightarrow> class_attr own cs)"

section \<open>The class methods \<^verbatim>\<open>use\<close>, \<^verbatim>\<open>db\<close> and \<^verbatim>\<open>collection\<close>\<close>

definition Document_use :: "pyclass \<Rightarrow> pyval \<Rightarrow> world \<Rightarrow> (error + unit) \<times> world" where
  "Document_use cls db w =
     (if db = PNone then (Inl AssertionError, w)
      else (Inr (), w\<lparr>w_db := (w_db w)(cls := Some db)\<rparr>))"

definition Document_db :: "runtime \<Rightarrow> pyclass \<Rightarrow> world \<Rightarrow> error + pyval" where
  "Document_db rt cls w =
     (case class_attr (w_db w) (mro rt cls) of
        None \<Rightarrow> Inl (AttributeError ''Accessing database without using it first.'')
      | Some db \<Rightarrow> Inr db)"

text \<open>Reading an attribute of the \<^verbatim>\<open>Mongo\<close> class, as \<^verbatim>\<open>meta.collection\<close> does.\<close>

definition meta_attr :: "mongo_type \<Rightarrow> mongo_field \<Rightarrow> error + pyval" where
  "meta_attr meta f =
     (case getattr meta f of None \<Rightarrow> Inl (AttributeError ''Mongo'') | Some v \<Rightarrow> Inr v)"

text \<open>
  Lines 172 to 178: the database is asked for a collection object, which becomes the class's
  own \<^verbatim>\<open>__collection__\<close>.
\<close>

definition get_collection :: "runtime \<Rightarrow> pyclass \<Rightarrow> mongo_type \<Rightarrow> world \<Rightarrow> (error + handle) \<times> world" where
  "get_collection rt cls meta w =
     (case Document_db rt cls w of
        Inl e \<Rightarrow> (Inl e, w)
      | Inr db \<Rightarrow>
     (case meta_attr meta Collection of
        Inl e \<Rightarrow> (Inl e, w)
      | Inr name \<Rightarrow>
     (case meta_attr meta CodecOptions of
        Inl e \<Rightarrow> (Inl e, w)
      | Inr co \<Rightarrow>
     (case meta_attr meta ReadPreference of
        Inl e \<Rightarrow> (Inl e, w)
      | Inr rp \<Rightarrow>
     (case meta_attr meta WriteConcern of
        Inl e \<Rightarrow> (Inl e, w)
      | Inr wc \<Rightarrow>
     (case meta_attr meta ReadConcern of
        Inl e \<Rightarrow> (Inl e, w)
      | Inr rc \<Rightarrow>
          (let h = \<lparr>h_ident = w_next w, h_database = db, h_name = name, h_codec_options = co,
                    h_read_preference = rp, h_write_concern = wc, h_read_concern = rc\<rparr>
           in (Inr h, w\<lparr>w_collection := (w_collection w)(cls := Some (Some h)),
                         w_next := Suc (w_next w)\<rparr>))))))))"

text \<open>
  \<^verbatim>\<open>Document.collection\<close> (lines 163 to 179). \<^verbatim>\<open>cls.__collection__\<close> is an attribute lookup
  along \<^verbatim>\<open>__mro__\<close>; the assignment binds the attribute on \<^verbatim>\<open>cls\<close> itself.
\<close>

definition Document_collection :: "runtime \<Rightarrow> pyclass \<Rightarrow> world \<Rightarrow> (error + handle) \<times> world" where
  "Document_collection rt cls w =
     (case dunder_mongo cls of
        Inl e \<Rightarrow> (Inl e, w)
      | Inr meta \<Rightarrow>
     (case class_attr (w_collection w) (mro rt cls) of
        None \<Rightarrow> (Inl (AttributeError ''__collection__''), w)
      | Some None \<Rightarrow> get_collection rt cls meta w
      | Some (Some cached) \<Rightarrow>
     (case Document_db rt cls w of
        Inl e \<Rightarrow> (Inl e, w)
      | Inr db \<Rightarrow>
          if h_database cached \<noteq> db then get_collection rt cls meta w
          else (Inr cached, w))))"

section \<open>The instance methods\<close>

text \<open>\<^verbatim>\<open>self.id\<close>: the field's value in \<^verbatim>\<open>__dict__\<close>.\<close>

definition attr_id :: "obj \<Rightarrow> error + pyval" where
  "attr_id self =
     (case map_of (o_dict self) ''id'' of
        None \<Rightarrow> Inl (AttributeError ''id'')
      | Some v \<Rightarrow> Inr v)"

text \<open>
  \<^verbatim>\<open>obj.id = v\<close> on the instance at a reference: pydantic validates the value, then stores
  it in \<^verbatim>\<open>__dict__\<close>.
\<close>

definition set_id :: "runtime \<Rightarrow> nat \<Rightarrow> pyval \<Rightarrow> world \<Rightarrow> (error + unit) \<times> world" where
  "set_id rt r v w =
     (let self = w_heap w r in
      case validate_assignment rt (o_class self) ''id'' v of
        Inl e \<Rightarrow> (Inl e, w)
      | Inr v' \<Rightarrow>
          (Inr (), w\<lparr>w_heap := (w_heap w)(r := self\<lparr>o_dict := AList.update ''id'' v' (o_dict self)\<rparr>)\<rparr>))"

text \<open>\<^verbatim>\<open>Document.mongo\<close> (lines 181 to 193).\<close>

definition Document_mongo ::
  "runtime \<Rightarrow> obj \<Rightarrow> string list option \<Rightarrow> string list option \<Rightarrow> error + doc" where
  "Document_mongo rt self incl excl =
     (let document = BaseModel_dict (model_fields rt (o_class self)) incl excl (o_dict self) in
      case attr_id self of
        Inl e \<Rightarrow> Inl e
      | Inr i \<Rightarrow> Inr (if i = PNone then AList.delete ''_id'' document else document))"

text \<open>Sending a request: it is appended to the log.\<close>

definition send :: "request \<Rightarrow> world \<Rightarrow> world" where
  "send q w = w\<lparr>w_log := w_log w @ [q]\<rparr>"

text \<open>\<^verbatim>\<open>Document.insert\<close> (lines 195 to 201).\<close>

definition Document_insert :: "runtime \<Rightarrow> nat \<Rightarrow> world \<Rightarrow> (error + unit) \<times> world" where
  "Document_insert rt self w =
     (case Document_collection rt (o_class (w_heap w self)) w of
        (Inl e, w1) \<Rightarrow> (Inl e, w1)
      | (Inr coll, w1) \<Rightarrow>
     (case Document_mongo rt (w_heap w1 self) None None of
        Inl e \<Rightarrow> (Inl e, w1)
      | Inr document \<Rightarrow>
     (case insert_one rt (w_log w1) coll document of
        Inl e \<Rightarrow> (Inl e, send (InsertOne coll document) w1)
      | Inr inserted_id \<Rightarrow> set_id rt self inserted_id (send (InsertOne coll document) w1))))"

text \<open>\<^verbatim>\<open>Document.replace\<close> (lines 217 to 227); the result is the reference \<^verbatim>\<open>replace\<close>.\<close>

definition Document_replace :: "runtime \<Rightarrow> nat \<Rightarrow> nat \<Rightarrow> world \<Rightarrow> (error + nat) \<times> world" where
  "Document_replace rt self replace w =
     (case Document_collection rt (o_class (w_heap w self)) w of
        (Inl e, w1) \<Rightarrow> (Inl e, w1)
      | (Inr coll, w1) \<Rightarrow>
     (case Document_mongo rt (w_heap w1 self) None None of
        Inl e \<Rightarrow> (Inl e, w1)
      | Inr flt \<Rightarrow>
     (case Document_mongo rt (w_heap w1 replace) None None of
        Inl e \<Rightarrow> (Inl e, w1)
      | Inr document \<Rightarrow>
     (case replace_one rt (w_log w1) coll flt document of
        Inl e \<Rightarrow> (Inl e, send (ReplaceOne coll flt document) w1)
      | Inr upserted_id \<Rightarrow>
          (let w2 = send (ReplaceOne coll flt document) w1 in
           if truthy upserted_id then
             (case set_id rt replace upserted_id w2 of
                (Inl e, w3) \<Rightarrow> (Inl e, w3)
              | (Inr u, w3) \<Rightarrow> (Inr replace, w3))
           else
             (case attr_id (w_heap w2 replace) of
                Inl e \<Rightarrow> (Inl e, w2)
              | Inr rid \<Rightarrow>
                  if rid = PNone then
                    (case attr_id (w_heap w2 self) of
                       Inl e \<Rightarrow> (Inl e, w2)
                     | Inr sid \<Rightarrow>
                         (case set_id rt replace sid w2 of
                            (Inl e, w3) \<Rightarrow> (Inl e, w3)
                          | (Inr u, w3) \<Rightarrow> (Inr replace, w3)))
                  else (Inr replace, w2)))))))"

text \<open>
  Record construction \<^verbatim>\<open>cls(**doc)\<close>: unpacking \<^verbatim>\<open>None\<close> raises a \<^verbatim>\<open>TypeError\<close> before
  pydantic is entered; a validated record is a new object.
\<close>

definition new_instance :: "runtime \<Rightarrow> pyclass \<Rightarrow> doc option \<Rightarrow> world \<Rightarrow> (error + nat) \<times> world" where
  "new_instance rt cls result w =
     (case result of
        None \<Rightarrow> (Inl (TypeError ''argument after ** must be a mapping, not NoneType''), w)
      | Some d \<Rightarrow>
          (case construct rt cls d of
             Inl e \<Rightarrow> (Inl e, w)
           | Inr dict' \<Rightarrow>
               (Inr (w_next w),
                w\<lparr>w_heap := (w_heap w)(w_next w := \<lparr>o_class = cls, o_dict = dict'\<rparr>),
                  w_next := Suc (w_next w)\<rparr>)))"

text \<open>\<^verbatim>\<open>object.__setattr__(target, "__dict__", source.__dict__)\<close>.\<close>

definition swap_dict :: "nat \<Rightarrow> nat \<Rightarrow> world \<Rightarrow> world" where
  "swap_dict target source w =
     w\<lparr>w_heap := (w_heap w)(target := (w_heap w target)\<lparr>o_dict := o_dict (w_heap w source)\<rparr>)\<rparr>"

text \<open>\<^verbatim>\<open>Document.reload\<close> (lines 240 to 250).\<close>

definition Document_reload :: "runtime \<Rightarrow> nat \<Rightarrow> world \<Rightarrow> (error + unit) \<times> world" where
  "Document_reload rt self w =
     (case attr_id (w_heap w self) of
        Inl e \<Rightarrow> (Inl e, w)
      | Inr sid \<Rightarrow>
          if sid = PNone then (Inl AssertionError, w)
          else
     (case Document_collection rt (o_class (w_heap w self)) w of
        (Inl e, w1) \<Rightarrow> (Inl e, w1)
      | (Inr coll, w1) \<Rightarrow>
     (case attr_id (w_heap w1 self) of
        Inl e \<Rightarrow> (Inl e, w1)
      | Inr sid1 \<Rightarrow>
     (case find_one rt (w_log w1) coll (Some [(''_id'', sid1)]) of
        Inl e \<Rightarrow> (Inl e, send (FindOne coll (Some [(''_id'', sid1)])) w1)
      | Inr found \<Rightarrow>
     (case new_instance rt (o_class (w_heap w1 self)) found
             (send (FindOne coll (Some [(''_id'', sid1)])) w1) of
        (Inl e, w2) \<Rightarrow> (Inl e, w2)
      | (Inr updated, w2) \<Rightarrow> (Inr (), swap_dict self updated w2))))))"

text \<open>\<^verbatim>\<open>Document.update\<close> (lines 229 to 238).\<close>

definition Document_update ::
  "runtime \<Rightarrow> nat \<Rightarrow> doc \<Rightarrow> bool \<Rightarrow> world \<Rightarrow> (error + bool) \<times> world" where
  "Document_update rt self upd reload w =
     (case attr_id (w_heap w self) of
        Inl e \<Rightarrow> (Inl e, w)
      | Inr sid \<Rightarrow>
          if sid = PNone then (Inl AssertionError, w)
          else
     (case Document_collection rt (o_class (w_heap w self)) w of
        (Inl e, w1) \<Rightarrow> (Inl e, w1)
      | (Inr coll, w1) \<Rightarrow>
     (case attr_id (w_heap w1 self) of
        Inl e \<Rightarrow> (Inl e, w1)
      | Inr sid1 \<Rightarrow>
     (case update_one rt (w_log w1) coll [(''_id'', sid1)] upd of
        Inl e \<Rightarrow> (Inl e, send (UpdateOne coll [(''_id'', sid1)] upd) w1)
      | Inr modified_count \<Rightarrow>
          (let w2 = send (UpdateOne coll [(''_id'', sid1)] upd) w1 in
           if reload then
             (case Document_reload rt self w2 of
                (Inl e, w3) \<Rightarrow> (Inl e, w3)
              | (Inr u, w3) \<Rightarrow> (Inr (modified_count = 1), w3))
           else (Inr (modified_count = 1), w2))))))"

text \<open>\<^verbatim>\<open>Document.find_one\<close> (lines 276 to 285): \<^verbatim>\<open>cls(**doc) if doc else None\<close>.\<close>

definition Document_find_one ::
  "runtime \<Rightarrow> pyclass \<Rightarrow> doc option \<Rightarrow> world \<Rightarrow> (error + nat option) \<times> world" where
  "Document_find_one rt cls flt w =
     (case Document_collection rt cls w of
        (Inl e, w1) \<Rightarrow> (Inl e, w1)
      | (Inr coll, w1) \<Rightarrow>
     (case find_one rt (w_log w1) coll flt of
        Inl e \<Rightarrow> (Inl e, send (FindOne coll flt) w1)
      | Inr found \<Rightarrow>
          (let w2 = send (FindOne coll flt) w1 in
           case found of
             None \<Rightarrow> (Inr None, w2)
           | Some d \<Rightarrow>
               if d = [] then (Inr None, w2)
               else
                 (case new_instance rt cls (Some d) w2 of
                    (Inl e, w3) \<Rightarrow> (Inl e, w3)
                  | (Inr r, w3) \<Rightarrow> (Inr (Some r), w3)))))"

text \<open>
  The replacement handed to \<^verbatim>\<open>find_one_and_replace\<close>: a dictionary, or a reference to an
  instance. The heap holds instances of document classes only, so
  \<^verbatim>\<open>isinstance(replacement, Document)\<close> holds for a reference and fails for a dictionary;
  \<^verbatim>\<open>isinstance(replacement, cls)\<close> asks whether \<^verbatim>\<open>cls\<close> is in the \<^verbatim>\<open>__mro__\<close> of the
  instance's class.
\<close>

datatype replacement = RDict doc | RInstance nat

definition isinstance :: "runtime \<Rightarrow> world \<Rightarrow> replacement \<Rightarrow> pyclass \<Rightarrow> bool" where
  "isinstance rt w replacement cls =
     (case replacement of
        RDict d \<Rightarrow> False
      | RInstance r \<Rightarrow> List.member (mro rt (o_class (w_heap w r))) cls)"

text \<open>
  \<^verbatim>\<open>Document.find_one_and_replace\<close> (lines 297 to 317). \<^verbatim>\<open>ReturnDocument.AFTER\<close> is
  \<^verbatim>\<open>True\<close>, \<^verbatim>\<open>ReturnDocument.BEFORE\<close> is \<^verbatim>\<open>False\<close>.
\<close>

definition Document_find_one_and_replace ::
  "runtime \<Rightarrow> pyclass \<Rightarrow> doc \<Rightarrow> replacement \<Rightarrow> bool \<Rightarrow> world \<Rightarrow> (error + nat option) \<times> world" where
  "Document_find_one_and_replace rt cls flt replacement return_document w =
     (case (case replacement of
              RInstance r \<Rightarrow> Document_mongo rt (w_heap w r) None None
            | RDict d \<Rightarrow> Inr d) of
        Inl e \<Rightarrow> (Inl e, w)
      | Inr data \<Rightarrow>
     (case Document_collection rt cls w of
        (Inl e, w1) \<Rightarrow> (Inl e, w1)
      | (Inr coll, w1) \<Rightarrow>
     (case find_one_and_replace rt (w_log w1) coll flt data return_document of
        Inl e \<Rightarrow> (Inl e, send (FindOneAndReplace coll flt data return_document) w1)
      | Inr result \<Rightarrow>
          (let w2 = send (FindOneAndReplace coll flt data return_document) w1 in
           case result of
             None \<Rightarrow> (Inr None, w2)
           | Some d \<Rightarrow>
               (case new_instance rt cls (Some d) w2 of
                  (Inl e, w3) \<Rightarrow> (Inl e, w3)
                | (Inr inst, w3) \<Rightarrow>
                    (case replacement of
                       RInstance r \<Rightarrow>
                         if return_document \<and> isinstance rt w3 replacement cls
                         then (Inr (Some r), swap_dict r inst w3)
                         else (Inr (Some inst), w3)
                     | RDict d' \<Rightarrow> (Inr (Some inst), w3)))))))"

section \<open>A small program\<close>

text \<open>
  Three fields (the identifier under its reserved alias, a name and an age stored as
  \<^verbatim>\<open>years\<close>), the linearisations of the example classes, a validator that reads a
  document through the aliases, a driver with fixed answers, and three instances.
\<close>

definition example_fields :: "model_field list" where
  "example_fields =
     [\<lparr>f_name = ''id'', f_alias = ''_id'', f_default = Some PNone\<rparr>,
      \<lparr>f_name = ''name'', f_alias = ''name'', f_default = Some (PStr ''anonymous'')\<rparr>,
      \<lparr>f_name = ''age'', f_alias = ''years'', f_default = Some (PInt 0)\<rparr>]"

definition example_mro :: "pyclass \<Rightarrow> pyclass list" where
  "example_mro c =
     (if c = example_C then [example_C, example_B, example_A, Document, BaseModel]
      else if c = example_B then [example_B, example_A, Document, BaseModel]
      else if c = example_A then [example_A, Document, BaseModel]
      else [c, BaseModel])"

definition example_construct :: "pyclass \<Rightarrow> doc \<Rightarrow> error + doc" where
  "example_construct c d =
     Inr (map (\<lambda>f. (f_name f,
                     case map_of d (f_alias f) of
                       Some v \<Rightarrow> v
                     | None \<Rightarrow> (case f_default f of Some v \<Rightarrow> v | None \<Rightarrow> PNone)))
            example_fields)"

definition stored_document :: doc where
  "stored_document = [(''_id'', PObjectId 5), (''name'', PStr ''Grace''), (''years'', PInt 45)]"

definition example_runtime :: runtime where
  "example_runtime =
     \<lparr>mro = example_mro,
      model_fields = (\<lambda>c. example_fields),
      construct = example_construct,
      validate_assignment = (\<lambda>c n v. Inr v),
      insert_one = (\<lambda>log h d. Inr (PObjectId 100)),
      replace_one = (\<lambda>log h f d. Inr PNone),
      update_one = (\<lambda>log h f u. Inr 1),
      find_one = (\<lambda>log h f. Inr (Some stored_document)),
      find_one_and_replace = (\<lambda>log h f d after. Inr (Some stored_document))\<rparr>"

definition unsaved :: obj where
  "unsaved = \<lparr>o_class = example_A,
              o_dict = [(''id'', PNone), (''name'', PStr ''Ada''), (''age'', PInt 0)]\<rparr>"

definition blank :: obj where
  "blank = \<lparr>o_class = example_A,
            o_dict = [(''id'', PNone), (''name'', PStr ''anonymous''), (''age'', PInt 0)]\<rparr>"

definition saved :: obj where
  "saved = \<lparr>o_class = example_A,
            o_dict = [(''id'', PObjectId 5), (''name'', PStr ''Ada''), (''age'', PInt 36)]\<rparr>"

text \<open>
  A state of the program after \<^verbatim>\<open>Document.use(db)\<close>: the three instances live at the
  references 0, 1 and 2, and nothing has been sent. A driver that refuses every insert.
\<close>

definition example_world :: world where
  "example_world =
     \<lparr>w_db = (\<lambda>c. if c = Document then Some (PObject 7) else None),
      w_collection = initial_collection,
      w_heap = (\<lambda>r. if r = 0 then unsaved else if r = 1 then saved else blank),
      w_next = 3,
      w_log = []\<rparr>"

definition handle_A :: handle where
  "handle_A =
     \<lparr>h_ident = 3, h_database = PObject 7, h_name = PStr ''a'', h_codec_options = PObject 1,
      h_read_preference = PNone, h_write_concern = PNone, h_read_concern = PNone\<rparr>"

definition failing_runtime :: runtime where
  "failing_runtime = example_runtime\<lparr>insert_one := (\<lambda>log h d. Inl (StoreError 1))\<rparr>"

text \<open>A driver whose replace always upserts.\<close>

definition upserting_runtime :: runtime where
  "upserting_runtime = example_runtime\<lparr>replace_one := (\<lambda>log h f d. Inr (PObjectId 200))\<rparr>"

text \<open>An update specification, and a driver whose updates modify nothing.\<close>

definition set_name :: doc where
  "set_name = [(''$set'', PDict [(''name'', PStr ''Grace'')])]"

definition idle_runtime :: runtime where
  "idle_runtime = example_runtime\<lparr>update_one := (\<lambda>log h f u. Inr 0)\<rparr>"

text \<open>A driver that finds no document, and the record built from the stored document.\<close>

definition empty_store_runtime :: runtime where
  "empty_store_runtime = example_runtime\<lparr>find_one := (\<lambda>log h f. Inr None)\<rparr>"

definition reloaded_dict :: doc where
  "reloaded_dict = [(''id'', PObjectId 5), (''name'', PStr ''Grace''), (''age'', PInt 45)]"

text \<open>
  The collection object that \<^verbatim>\<open>class B(A)\<close> is configured for, when it is the first one
  to be created.
\<close>

definition handle_B :: handle where
  "handle_B =
     \<lparr>h_ident = 3, h_database = PObject 7, h_name = PStr ''b'', h_codec_options = PObject 1,
      h_read_preference = PNone, h_write_concern = PNone, h_read_concern = PNone\<rparr>"

subsection \<open>Chains of classes with one base each\<close>







subsection \<open>A diamond\<close>







text \<open>
  A driver that answers \<^verbatim>\<open>find_one\<close> without the identifier, as it does when the extra
  arguments of the call carry the projection \<^verbatim>\<open>{"_id": 0}\<close>.
\<close>

definition projecting_runtime :: runtime where
  "projecting_runtime =
     example_runtime\<lparr>find_one :=
       (\<lambda>log h f. Inr (Some [(''name'', PStr ''Grace''), (''years'', PInt 45)]))\<rparr>"

section \<open>Properties of the configuration merge\<close>

lemma getattr_inherit_class:
  "getattr (inherit_class n d p) f = overlay_attr (declared_attr f d) (getattr p f)"
  by (cases d; cases f) (simp_all add: inherit_class_def overlay_attr_def is_null_def)

lemma mongo_eqI: "(\<And>f. getattr a f = getattr b f) \<Longrightarrow> a = (b::mongo_type)"
proof -
  assume h: "\<And>f. getattr a f = getattr b f"
  from h[of Collection] h[of CodecOptions] h[of ReadPreference] h[of WriteConcern] h[of ReadConcern]
  show ?thesis by simp
qed

lemma overlay_chain_Nil: "overlay_chain m [] = m" by (simp add: overlay_chain_def)
lemma overlay_chain_snoc: "overlay_chain m (ds @ [d]) = inherit_class ''Mongo'' d (overlay_chain m ds)"
  by (simp add: overlay_chain_def)
lemma overlay_chain_append: "overlay_chain m (ds @ es) = overlay_chain (overlay_chain m ds) es"
  by (simp add: overlay_chain_def)

lemma getattr_overlay_chain:
  "getattr (overlay_chain m ds) f =
     (if filter (sets f) ds = [] then getattr m f
      else declared_attr f (last (filter (sets f) ds)))"
proof (induction ds rule: rev_induct)
  case Nil
  show ?case by (simp add: overlay_chain_Nil)
next
  case (snoc d ds)
  show ?case
  proof (cases "sets f d")
    case True
    then have "\<not> is_null (declared_attr f d)" by (simp add: sets_def)
    with True show ?thesis
      by (simp add: overlay_chain_snoc getattr_inherit_class overlay_attr_def)
  next
    case False
    then have "is_null (declared_attr f d)" by (simp add: sets_def)
    with False snoc show ?thesis
      by (simp add: overlay_chain_snoc getattr_inherit_class overlay_attr_def)
  qed
qed

lemma is_null_MongoBase: "is_null (getattr MongoBase f)"
  by (cases f) (simp_all add: MongoBase_def is_null_def)

lemma sets_last_filter: "filter (sets f) ds \<noteq> [] \<Longrightarrow> sets f (last (filter (sets f) ds))"
proof -
  assume h: "filter (sets f) ds \<noteq> []"
  then have "last (filter (sets f) ds) \<in> set (filter (sets f) ds)" by (rule last_in_set)
  then show ?thesis by simp
qed

lemma inherit_effective:
  "inherit_class n (Some (overlay_chain MongoBase ds)) m = overlay_chain m ds"
proof (rule mongo_eqI)
  fix f
  show "getattr (inherit_class n (Some (overlay_chain MongoBase ds)) m) f = getattr (overlay_chain m ds) f"
  proof (cases "filter (sets f) ds = []")
    case True
    then show ?thesis using is_null_MongoBase[of f]
      by (simp add: getattr_inherit_class getattr_overlay_chain overlay_attr_def)
  next
    case False
    from sets_last_filter[OF False] have "\<not> is_null (declared_attr f (last (filter (sets f) ds)))"
      by (simp add: sets_def)
    then show ?thesis using False
      by (simp add: getattr_inherit_class getattr_overlay_chain overlay_attr_def)
  qed
qed

lemma merge_bases_chain:
  assumes "\<And>b. b \<in> set bs \<Longrightarrow> document_subclass b \<Longrightarrow>
             dunder_mongo b = Inr (overlay_chain MongoBase (chain b))"
  shows "merge_bases bs m =
           Inr (overlay_chain m (concat (map chain (filter document_subclass bs))))"
  using assms
proof (induction bs arbitrary: m)
  case Nil
  show ?case by (simp add: overlay_chain_Nil)
next
  case (Cons b bs)
  show ?case
  proof (cases "document_subclass b")
    case True
    with Cons.prems have "dunder_mongo b = Inr (overlay_chain MongoBase (chain b))" by simp
    with True Cons show ?thesis
      by (simp add: inherit_effective overlay_chain_append)
  next
    case False
    with Cons show ?thesis by simp
  qed
qed

lemma resolve_chain:
  assumes "\<And>b. b \<in> set bases \<Longrightarrow> document_subclass b \<Longrightarrow>
             dunder_mongo b = Inr (overlay_chain MongoBase (chain b))"
  shows "resolve bases ns = Inr (overlay_chain MongoBase (chain (Class n bases ns)))"
proof -
  have "merge_bases (rev bases) MongoBase =
          Inr (overlay_chain MongoBase (concat (map chain (filter document_subclass (rev bases)))))"
    by (rule merge_bases_chain) (use assms in simp)
  then show ?thesis
    by (simp add: resolve_def overlay_chain_snoc)
qed

lemma declared_effective:
  "declared c \<Longrightarrow> document_subclass c \<Longrightarrow>
     dunder_mongo c = Inr (overlay_chain MongoBase (chain c))"
proof (induction c)
  case BaseModel
  then show ?case by (simp add: document_subclass_def)
next
  case (Foreign s)
  then show ?case by (simp add: document_subclass_def Document_def)
next
  case (Class n bases ns)
  have bs: "\<And>b. b \<in> set bases \<Longrightarrow> document_subclass b \<Longrightarrow>
             dunder_mongo b = Inr (overlay_chain MongoBase (chain b))"
    using Class by (simp add: list_all_iff)
  have r: "resolve bases (ns\<lparr>ns_dunder_mongo := None\<rparr>) =
             Inr (overlay_chain MongoBase (chain (Class n bases ns)))"
    using resolve_chain[OF bs, of bases "ns\<lparr>ns_dunder_mongo := None\<rparr>" n] by simp
  from Class.prems(1) have "new n bases (ns\<lparr>ns_dunder_mongo := None\<rparr>) = Inr (Class n bases ns)"
    by simp
  then have "ns\<lparr>ns_dunder_mongo := Some (overlay_chain MongoBase (chain (Class n bases ns)))\<rparr> = ns"
    unfolding new_def r by (simp split: if_splits)
  then have "ns_dunder_mongo (ns\<lparr>ns_dunder_mongo := Some (overlay_chain MongoBase (chain (Class n bases ns)))\<rparr>)
               = ns_dunder_mongo ns"
    by (rule arg_cong)
  then have "ns_dunder_mongo ns = Some (overlay_chain MongoBase (chain (Class n bases ns)))"
    by simp
  then show ?case by simp
qed



lemma filter_empty_list_ex: "(filter P xs = []) = (\<not> list_ex P xs)"
  by (induction xs) auto

lemma collection_overlay_chain:
  "collection (overlay_chain MongoBase ds) =
     (if filter (sets Collection) ds = [] then None
      else declared_attr Collection (last (filter (sets Collection) ds)))"
  using getattr_overlay_chain[of MongoBase ds Collection] by (simp add: MongoBase_def)

lemma collection_overlay_chain_null:
  "is_null (collection (overlay_chain MongoBase ds)) = (\<not> list_ex (sets Collection) ds)"
proof (cases "filter (sets Collection) ds = []")
  case True
  then show ?thesis
    by (simp add: collection_overlay_chain is_null_def flip: filter_empty_list_ex)
next
  case False
  from sets_last_filter[OF False] False show ?thesis
    by (simp add: collection_overlay_chain sets_def flip: filter_empty_list_ex)
qed

lemma collection_overlay_chain_hasattr:
  "(collection (overlay_chain MongoBase ds) = None) = is_null (collection (overlay_chain MongoBase ds))"
proof (cases "filter (sets Collection) ds = []")
  case True
  then show ?thesis by (simp add: collection_overlay_chain is_null_def)
next
  case False
  from sets_last_filter[OF False] False show ?thesis
    by (auto simp add: collection_overlay_chain sets_def is_null_def)
qed





subsection \<open>Claim C1\<close>




subsection \<open>Claim C2\<close>

text \<open>
  C2. When a class other than \<^verbatim>\<open>Document\<close> itself is declared on declared bases, the
  merged configuration has a null collection exactly when no declaration of the ancestor
  chain sets one; in that case the metaclass raises the \<^verbatim>\<open>TypeError\<close> "does not define a
  collection" while the class is being created, and otherwise it returns the class.
\<close>

theorem missing_collection_definition_error:
  assumes "list_all declared bases" and "\<not> is_Document_namespace ns"
  shows "\<exists>merged. resolve bases ns = Inr merged \<and>
           is_null (collection merged) = (\<not> list_ex (sets Collection) (chain (Class name bases ns))) \<and>
           new name bases ns =
             (if is_null (collection merged)
              then Inl (TypeError (name @ '' does not define a collection.''))
              else Inr (Class name bases
                     (ns\<lparr>ns_dunder_mongo :=
                          (case ns_dunder_mongo ns of None \<Rightarrow> Some merged | Some m \<Rightarrow> Some m)\<rparr>)))"
proof -
  define ch where "ch = chain (Class name bases ns)"
  define m where "m = overlay_chain MongoBase ch"
  have bs: "\<And>b. b \<in> set bases \<Longrightarrow> document_subclass b \<Longrightarrow>
             dunder_mongo b = Inr (overlay_chain MongoBase (chain b))"
    using assms(1) by (simp add: list_all_iff declared_effective)
  have r: "resolve bases ns = Inr m"
    unfolding m_def ch_def by (rule resolve_chain[OF bs])
  have n: "is_null (collection m) = (\<not> list_ex (sets Collection) ch)"
    unfolding m_def by (rule collection_overlay_chain_null)
  have h: "(collection m = None) = is_null (collection m)"
    unfolding m_def by (rule collection_overlay_chain_hasattr)
  have "new name bases ns =
             (if is_null (collection m)
              then Inl (TypeError (name @ '' does not define a collection.''))
              else Inr (Class name bases
                     (ns\<lparr>ns_dunder_mongo :=
                          (case ns_dunder_mongo ns of None \<Rightarrow> Some m | Some m' \<Rightarrow> Some m')\<rparr>)))"
    unfolding new_def r using assms(2) h by simp
  with r n show ?thesis unfolding ch_def by blast
qed

theorem missing_collection_definition_error_witness:
  "list_all declared [Document] \<and> \<not> is_Document_namespace no_collection_namespace \<and>
   new ''Draft'' [Document] no_collection_namespace =
     Inl (TypeError ''Draft does not define a collection.'') \<and>
   list_all declared [example_B] \<and>
   (\<exists>c. new ''Draft'' [example_B] no_collection_namespace = Inr c)"
proof -
  have d: "list_all declared [Document]" by code_simp
  have d': "list_all declared [example_B]" by code_simp
  have s: "\<not> is_Document_namespace no_collection_namespace" by code_simp
  have c: "\<not> list_ex (sets Collection) (chain (Class ''Draft'' [Document] no_collection_namespace))"
    by code_simp
  have c': "list_ex (sets Collection) (chain (Class ''Draft'' [example_B] no_collection_namespace))"
    by code_simp
  from missing_collection_definition_error[OF d s, of "''Draft''"] c
  have 1: "new ''Draft'' [Document] no_collection_namespace =
     Inl (TypeError ''Draft does not define a collection.'')" by auto
  from missing_collection_definition_error[OF d' s, of "''Draft''"] c'
  have 2: "\<exists>c. new ''Draft'' [example_B] no_collection_namespace = Inr c" by auto
  from d d' s 1 2 show ?thesis by simp
qed

section \<open>Properties of the serialisation\<close>

lemma update_fresh: "k \<notin> fst ` set al \<Longrightarrow> AList.update k v al = al @ [(k, v)]"
  by (induction al) auto

lemma foldl_dict_fresh:
  "distinct (map fst acc @ map (\<lambda>item. fst (by_alias fs item)) items) \<Longrightarrow>
   foldl (\<lambda>d item.
              if emitted fs incl excl item
              then AList.update (fst (by_alias fs item)) (snd (by_alias fs item)) d else d) acc items =
   acc @ map (by_alias fs) (filter (emitted fs incl excl) items)"
proof (induction items arbitrary: acc)
  case Nil
  show ?case by simp
next
  case (Cons item items)
  show ?case
  proof (cases "emitted fs incl excl item")
    case True
    from Cons.prems have fresh: "fst (by_alias fs item) \<notin> fst ` set acc" by auto
    have d: "distinct (map fst (acc @ [by_alias fs item]) @ map (\<lambda>item. fst (by_alias fs item)) items)"
      using Cons.prems by auto
    show ?thesis
      using True Cons.IH[OF d] by (simp add: update_fresh[OF fresh])
  next
    case False
    have d: "distinct (map fst acc @ map (\<lambda>item. fst (by_alias fs item)) items)"
      using Cons.prems by auto
    show ?thesis
      using False Cons.IH[OF d] by simp
  qed
qed

lemma BaseModel_dict_distinct:
  "distinct (map (\<lambda>item. fst (by_alias fs item)) items) \<Longrightarrow>
   BaseModel_dict fs incl excl items = map (by_alias fs) (filter (emitted fs incl excl) items)"
  unfolding BaseModel_dict_def using foldl_dict_fresh[of "[]" fs items incl excl] by simp

lemma delete_by_alias:
  "AList.delete a (map (by_alias fs) xs) =
     map (by_alias fs) (filter (\<lambda>item. fst (by_alias fs item) \<noteq> a) xs)"
  by (induction xs) (auto simp add: by_alias_def)

lemma emitted_None: "emitted fs None None = (\<lambda>item. \<not> holds_default fs (fst item) (snd item))"
  by (rule ext) (simp add: emitted_def allowed_key_def split: prod.splits)

lemma Document_mongo_distinct:
  assumes "distinct (map (\<lambda>item. fst (by_alias (model_fields rt (o_class self)) item)) (o_dict self))"
    and "attr_id self = Inr i"
  shows "Document_mongo rt self None None =
           Inr (map (by_alias (model_fields rt (o_class self)))
                  (filter (\<lambda>item. \<not> holds_default (model_fields rt (o_class self)) (fst item) (snd item) \<and>
                              \<not> (i = PNone \<and> fst (by_alias (model_fields rt (o_class self)) item) = ''_id''))
                     (o_dict self)))"
proof (cases "i = PNone")
  case True
  show ?thesis
    unfolding Document_mongo_def BaseModel_dict_distinct[OF assms(1)]
    using True assms(2) by (simp add: delete_by_alias emitted_None)
next
  case False
  show ?thesis
    unfolding Document_mongo_def BaseModel_dict_distinct[OF assms(1)]
    using False assms(2) by (simp add: emitted_None)
qed

subsection \<open>Claim C3\<close>

text \<open>
  C3. For an instance whose fields have pairwise distinct aliases, \<^verbatim>\<open>mongo()\<close> without
  filters returns, in field order and under the aliases, exactly the items whose value
  differs from the declared default of its field; when \<^verbatim>\<open>id\<close> is \<^verbatim>\<open>None\<close> the key
  \<^verbatim>\<open>_id\<close> is not in the result at all; and when \<^verbatim>\<open>id\<close> is \<^verbatim>\<open>None\<close>, stored under \<^verbatim>\<open>_id\<close>,
  and every other field holds its default, the result is the empty dictionary.
\<close>

theorem mongo_partial_document:
  assumes "model_fields rt (o_class self) = fs"
    and "distinct (map (\<lambda>item. fst (by_alias fs item)) (o_dict self))"
    and "attr_id self = Inr i"
  shows "\<exists>d. Document_mongo rt self None None = Inr d \<and>
           d = map (by_alias fs)
                 (filter (\<lambda>item. \<not> holds_default fs (fst item) (snd item) \<and>
                                \<not> (i = PNone \<and> fst (by_alias fs item) = ''_id''))
                    (o_dict self)) \<and>
           (i = PNone \<longrightarrow> map_of d ''_id'' = None) \<and>
           (i = PNone \<and> dict_key fs ''id'' = ''_id'' \<and>
            list_all (\<lambda>item. fst item = ''id'' \<or> holds_default fs (fst item) (snd item)) (o_dict self)
              \<longrightarrow> d = [])"
proof -
  define d where "d = map (by_alias fs)
                 (filter (\<lambda>item. \<not> holds_default fs (fst item) (snd item) \<and>
                                \<not> (i = PNone \<and> fst (by_alias fs item) = ''_id''))
                    (o_dict self))"
  have 1: "Document_mongo rt self None None = Inr d"
    unfolding d_def using Document_mongo_distinct[of rt self i] assms by simp
  have 2: "i = PNone \<longrightarrow> map_of d ''_id'' = None"
    unfolding d_def by (auto simp add: map_of_eq_None_iff)
  have 3: "i = PNone \<and> dict_key fs ''id'' = ''_id'' \<and>
            list_all (\<lambda>item. fst item = ''id'' \<or> holds_default fs (fst item) (snd item)) (o_dict self)
              \<longrightarrow> d = []"
    unfolding d_def by (auto simp add: list_all_iff filter_empty_conv by_alias_def split: prod.splits)
  from 1 2 3 show ?thesis unfolding d_def by blast
qed

theorem mongo_partial_document_witness:
  "Document_mongo example_runtime unsaved None None = Inr [(''name'', PStr ''Ada'')] \<and>
   Document_mongo example_runtime blank None None = Inr [] \<and>
   Document_mongo example_runtime saved None None =
     Inr [(''_id'', PObjectId 5), (''name'', PStr ''Ada''), (''years'', PInt 36)]"
proof -
  have f: "\<And>self. model_fields example_runtime (o_class self) = example_fields"
    by (simp add: example_runtime_def)
  have d1: "distinct (map (\<lambda>item. fst (by_alias example_fields item)) (o_dict unsaved))" by code_simp
  have d2: "distinct (map (\<lambda>item. fst (by_alias example_fields item)) (o_dict blank))" by code_simp
  have d3: "distinct (map (\<lambda>item. fst (by_alias example_fields item)) (o_dict saved))" by code_simp
  have i1: "attr_id unsaved = Inr PNone" by code_simp
  have i2: "attr_id blank = Inr PNone" by code_simp
  have i3: "attr_id saved = Inr (PObjectId 5)" by code_simp
  have e1: "map (by_alias example_fields)
                 (filter (\<lambda>item. \<not> holds_default example_fields (fst item) (snd item) \<and>
                                \<not> (PNone = PNone \<and> fst (by_alias example_fields item) = ''_id''))
                    (o_dict unsaved)) = [(''name'', PStr ''Ada'')]" by code_simp
  have e2: "dict_key example_fields ''id'' = ''_id'' \<and>
            list_all (\<lambda>item. fst item = ''id'' \<or> holds_default example_fields (fst item) (snd item)) (o_dict blank)"
    by code_simp
  have e3: "map (by_alias example_fields)
                 (filter (\<lambda>item. \<not> holds_default example_fields (fst item) (snd item) \<and>
                                \<not> (PObjectId 5 = PNone \<and> fst (by_alias example_fields item) = ''_id''))
                    (o_dict saved)) = [(''_id'', PObjectId 5), (''name'', PStr ''Ada''), (''years'', PInt 36)]"
    by code_simp
  from mongo_partial_document[OF f d1 i1] e1
  have 1: "Document_mongo example_runtime unsaved None None = Inr [(''name'', PStr ''Ada'')]" by simp
  from mongo_partial_document[OF f d2 i2] e2
  have 2: "Document_mongo example_runtime blank None None = Inr []" by auto
  from mongo_partial_document[OF f d3 i3] e3
  have 3: "Document_mongo example_runtime saved None None =
     Inr [(''_id'', PObjectId 5), (''name'', PStr ''Ada''), (''years'', PInt 36)]" by simp
  from 1 2 3 show ?thesis by simp
qed

section \<open>Properties of the class and instance methods\<close>

lemma get_collection_frame:
  "get_collection rt cls meta w = (res, w1) \<Longrightarrow>
     w_heap w1 = w_heap w \<and> w_log w1 = w_log w \<and> w_db w1 = w_db w"
  by (auto simp add: get_collection_def Let_def split: sum.splits)

lemma Document_collection_frame:
  "Document_collection rt cls w = (res, w1) \<Longrightarrow>
     w_heap w1 = w_heap w \<and> w_log w1 = w_log w \<and> w_db w1 = w_db w"
  by (auto simp add: Document_collection_def split: sum.splits option.splits if_splits
      dest: get_collection_frame)

lemma Document_mongo_total:
  "attr_id self = Inr i \<Longrightarrow> \<exists>d. Document_mongo rt self incl excl = Inr d"
  by (simp add: Document_mongo_def Let_def)

lemma Document_mongo_attr_id:
  "Document_mongo rt self incl excl = Inr d \<Longrightarrow> \<exists>i. attr_id self = Inr i"
  by (simp add: Document_mongo_def Let_def split: sum.splits)

lemma attr_id_update:
  "attr_id (self\<lparr>o_dict := AList.update ''id'' v (o_dict self)\<rparr>) = Inr v"
  by (simp add: attr_id_def update_conv')

lemma set_id_accepted:
  "validate_assignment rt (o_class (w_heap w r)) ''id'' v = Inr v' \<Longrightarrow>
     set_id rt r v w =
       (Inr (), w\<lparr>w_heap := (w_heap w)(r := (w_heap w r)\<lparr>o_dict := AList.update ''id'' v' (o_dict (w_heap w r))\<rparr>)\<rparr>)"
  by (simp add: set_id_def Let_def)

lemma set_id_rejected:
  "validate_assignment rt (o_class (w_heap w r)) ''id'' v = Inl e \<Longrightarrow>
     set_id rt r v w = (Inl e, w)"
  by (simp add: set_id_def Let_def)

lemma send_simps:
  "w_heap (send q w) = w_heap w" "w_log (send q w) = w_log w @ [q]"
  "w_db (send q w) = w_db w" "w_collection (send q w) = w_collection w"
  "w_next (send q w) = w_next w"
  by (simp_all add: send_def)

subsection \<open>Claim C5\<close>

text \<open>
  C5. Let \<^verbatim>\<open>insert\<close> be called on an instance whose collection resolves and whose partial
  document is \<open>document\<close>, whatever its identifier. If the driver answers with an inserted
  id, and the assignment to \<^verbatim>\<open>id\<close> accepts it, the call returns and the instance's identifier
  is that id, the other instances being as before. If the driver raises, the call raises the
  same error and no instance has changed: the identifier is assigned after the answer only.
\<close>

theorem insert_binds_identifier:
  assumes "Document_collection rt (o_class (w_heap w self)) w = (Inr coll, w1)"
    and "Document_mongo rt (w_heap w self) None None = Inr document"
  shows "(\<forall>inserted_id.
            insert_one rt (w_log w1) coll document = Inr inserted_id \<and>
            validate_assignment rt (o_class (w_heap w self)) ''id'' inserted_id = Inr inserted_id \<longrightarrow>
            (\<exists>w'. Document_insert rt self w = (Inr (), w') \<and>
                  attr_id (w_heap w' self) = Inr inserted_id \<and>
                  (\<forall>r. r \<noteq> self \<longrightarrow> w_heap w' r = w_heap w r) \<and>
                  w_log w' = w_log w @ [InsertOne coll document])) \<and>
         (\<forall>e. insert_one rt (w_log w1) coll document = Inl e \<longrightarrow>
            (\<exists>w'. Document_insert rt self w = (Inl e, w') \<and> w_heap w' = w_heap w \<and>
                  w_log w' = w_log w @ [InsertOne coll document]))"
proof -
  from Document_collection_frame[OF assms(1)]
  have fr: "w_heap w1 = w_heap w" "w_log w1 = w_log w" by simp_all
  show ?thesis
    unfolding Document_insert_def assms(1)
    using assms(2) fr
    by (auto simp add: send_simps set_id_accepted attr_id_update)
qed

lemma example_collection_A:
  "fst (Document_collection example_runtime example_A example_world) = Inr handle_A"
  by code_simp

lemma example_collection_A_failing:
  "fst (Document_collection failing_runtime example_A example_world) = Inr handle_A"
  by code_simp

theorem insert_binds_identifier_witness:
  "(\<exists>w'. Document_insert example_runtime 0 example_world = (Inr (), w') \<and>
         attr_id (w_heap w' 0) = Inr (PObjectId 100) \<and>
         w_log w' = [InsertOne handle_A [(''name'', PStr ''Ada'')]]) \<and>
   (\<exists>w'. Document_insert failing_runtime 0 example_world = (Inl (StoreError 1), w') \<and>
         w_heap w' = w_heap example_world)"
proof -
  have h0: "w_heap example_world 0 = unsaved" by (simp add: example_world_def)
  have cl: "o_class (w_heap example_world 0) = example_A" by (simp add: h0 unsaved_def)
  have lg: "w_log example_world = []" by (simp add: example_world_def)
  define w1 where "w1 = snd (Document_collection example_runtime example_A example_world)"
  define w1' where "w1' = snd (Document_collection failing_runtime example_A example_world)"
  have c: "Document_collection example_runtime (o_class (w_heap example_world 0)) example_world
             = (Inr handle_A, w1)"
    unfolding cl w1_def using example_collection_A by (simp add: prod_eq_iff)
  have c': "Document_collection failing_runtime (o_class (w_heap example_world 0)) example_world
             = (Inr handle_A, w1')"
    unfolding cl w1'_def using example_collection_A_failing by (simp add: prod_eq_iff)
  have m: "Document_mongo example_runtime (w_heap example_world 0) None None
             = Inr [(''name'', PStr ''Ada'')]"
    unfolding h0 by code_simp
  have m': "Document_mongo failing_runtime (w_heap example_world 0) None None
             = Inr [(''name'', PStr ''Ada'')]"
    unfolding h0 by code_simp
  have i: "insert_one example_runtime (w_log w1) handle_A [(''name'', PStr ''Ada'')] = Inr (PObjectId 100)"
    by (simp add: example_runtime_def)
  have v: "validate_assignment example_runtime (o_class (w_heap example_world 0)) ''id'' (PObjectId 100)
             = Inr (PObjectId 100)"
    by (simp add: example_runtime_def)
  have i': "insert_one failing_runtime (w_log w1') handle_A [(''name'', PStr ''Ada'')] = Inl (StoreError 1)"
    by (simp add: failing_runtime_def)
  from insert_binds_identifier[OF c m] i v lg
  have 1: "\<exists>w'. Document_insert example_runtime 0 example_world = (Inr (), w') \<and>
         attr_id (w_heap w' 0) = Inr (PObjectId 100) \<and>
         w_log w' = [InsertOne handle_A [(''name'', PStr ''Ada'')]]"
    by auto
  from insert_binds_identifier[OF c' m'] i'
  have 2: "\<exists>w'. Document_insert failing_runtime 0 example_world = (Inl (StoreError 1), w') \<and>
         w_heap w' = w_heap example_world"
    by auto
  from 1 2 show ?thesis by simp
qed

subsection \<open>Claim C4\<close>

text \<open>
  C4. Let \<^verbatim>\<open>self.replace(other)\<close> reach the driver and the driver answer with the result's
  \<^verbatim>\<open>upserted_id\<close>. The driver reports an upserted id when that value passes Python's truth
  test, as every object id does and \<^verbatim>\<open>None\<close> does not. Then, provided pydantic accepts the
  value that is assigned: with an upserted id, \<^verbatim>\<open>other.id\<close> is that id after the call;
  without one and with \<^verbatim>\<open>other.id\<close> \<^verbatim>\<open>None\<close> before the call, \<^verbatim>\<open>other.id\<close> is \<^verbatim>\<open>self.id\<close>;
  otherwise no instance changes. In each case the call returns the reference \<^verbatim>\<open>other\<close>, and
  the instances other than \<^verbatim>\<open>other\<close> are as before.
\<close>

theorem replace_sets_identifier:
  assumes "Document_collection rt (o_class (w_heap w self)) w = (Inr coll, w1)"
    and "Document_mongo rt (w_heap w self) None None = Inr flt"
    and "Document_mongo rt (w_heap w other) None None = Inr document"
    and "replace_one rt (w_log w1) coll flt document = Inr upserted_id"
    and "attr_id (w_heap w self) = Inr sid"
    and "attr_id (w_heap w other) = Inr oid"
    and "truthy upserted_id \<longrightarrow>
           validate_assignment rt (o_class (w_heap w other)) ''id'' upserted_id = Inr upserted_id"
    and "\<not> truthy upserted_id \<and> oid = PNone \<longrightarrow>
           validate_assignment rt (o_class (w_heap w other)) ''id'' sid = Inr sid"
  shows "\<exists>w'. Document_replace rt self other w = (Inr other, w') \<and>
           (truthy upserted_id \<longrightarrow> attr_id (w_heap w' other) = Inr upserted_id) \<and>
           (\<not> truthy upserted_id \<and> oid = PNone \<longrightarrow> attr_id (w_heap w' other) = Inr sid) \<and>
           (\<not> truthy upserted_id \<and> oid \<noteq> PNone \<longrightarrow> w_heap w' = w_heap w) \<and>
           (\<forall>r. r \<noteq> other \<longrightarrow> w_heap w' r = w_heap w r) \<and>
           w_log w' = w_log w @ [ReplaceOne coll flt document]"
proof -
  from Document_collection_frame[OF assms(1)]
  have fr: "w_heap w1 = w_heap w" "w_log w1 = w_log w" by simp_all
  show ?thesis
  proof (cases "truthy upserted_id")
    case True
    with assms(7) have v: "validate_assignment rt (o_class (w_heap w other)) ''id'' upserted_id = Inr upserted_id"
      by simp
    show ?thesis
      unfolding Document_replace_def assms(1)
      using True v assms(2-4) fr
      by (simp add: Let_def send_simps set_id_accepted attr_id_update)
  next
    case False
    show ?thesis
    proof (cases "oid = PNone")
      case True
      with False assms(8) have v: "validate_assignment rt (o_class (w_heap w other)) ''id'' sid = Inr sid"
        by simp
      show ?thesis
        unfolding Document_replace_def assms(1)
        using True False v assms(2-6) fr
        by (simp add: Let_def send_simps set_id_accepted attr_id_update)
    next
      case oid: False
      show ?thesis
        unfolding Document_replace_def assms(1)
        using oid False assms(2-6) fr
        by (simp add: Let_def send_simps)
    qed
  qed
qed

lemma example_collection_A_upserting:
  "fst (Document_collection upserting_runtime example_A example_world) = Inr handle_A"
  by code_simp

theorem replace_sets_identifier_witness:
  "(\<exists>w'. Document_replace upserting_runtime 1 0 example_world = (Inr 0, w') \<and>
         attr_id (w_heap w' 0) = Inr (PObjectId 200)) \<and>
   (\<exists>w'. Document_replace example_runtime 1 0 example_world = (Inr 0, w') \<and>
         attr_id (w_heap w' 0) = Inr (PObjectId 5)) \<and>
   (\<exists>w'. Document_replace example_runtime 0 1 example_world = (Inr 1, w') \<and>
         w_heap w' = w_heap example_world)"
proof -
  have h0: "w_heap example_world 0 = unsaved" by (simp add: example_world_def)
  have h1: "w_heap example_world 1 = saved" by (simp add: example_world_def)
  have c0: "o_class (w_heap example_world 0) = example_A" by (simp add: h0 unsaved_def)
  have c1: "o_class (w_heap example_world 1) = example_A" by (simp add: example_world_def saved_def)
  define wu where "wu = snd (Document_collection upserting_runtime example_A example_world)"
  define we where "we = snd (Document_collection example_runtime example_A example_world)"
  have cu: "Document_collection upserting_runtime (o_class (w_heap example_world 1)) example_world
             = (Inr handle_A, wu)"
    unfolding c1 wu_def using example_collection_A_upserting by (simp add: prod_eq_iff)
  have ce1: "Document_collection example_runtime (o_class (w_heap example_world 1)) example_world
             = (Inr handle_A, we)"
    unfolding c1 we_def using example_collection_A by (simp add: prod_eq_iff)
  have ce0: "Document_collection example_runtime (o_class (w_heap example_world 0)) example_world
             = (Inr handle_A, we)"
    unfolding c0 we_def using example_collection_A by (simp add: prod_eq_iff)
  let ?ds = "[(''_id'', PObjectId 5), (''name'', PStr ''Ada''), (''years'', PInt 36)]"
  let ?du = "[(''name'', PStr ''Ada'')]"
  have msu: "Document_mongo upserting_runtime (w_heap example_world 1) None None = Inr ?ds"
    unfolding h1 by code_simp
  have muu: "Document_mongo upserting_runtime (w_heap example_world 0) None None = Inr ?du"
    unfolding h0 by code_simp
  have mse: "Document_mongo example_runtime (w_heap example_world 1) None None = Inr ?ds"
    unfolding h1 by code_simp
  have mue: "Document_mongo example_runtime (w_heap example_world 0) None None = Inr ?du"
    unfolding h0 by code_simp
  have i0: "attr_id (w_heap example_world 0) = Inr PNone" unfolding h0 by code_simp
  have i1: "attr_id (w_heap example_world 1) = Inr (PObjectId 5)" unfolding h1 by code_simp
  have ru: "replace_one upserting_runtime (w_log wu) handle_A ?ds ?du = Inr (PObjectId 200)"
    by (simp add: upserting_runtime_def)
  have re: "replace_one example_runtime (w_log we) handle_A ?ds ?du = Inr PNone"
    by (simp add: example_runtime_def)
  have re': "replace_one example_runtime (w_log we) handle_A ?du ?ds = Inr PNone"
    by (simp add: example_runtime_def)
  have vu: "truthy (PObjectId 200) \<longrightarrow>
             validate_assignment upserting_runtime (o_class (w_heap example_world 0)) ''id'' (PObjectId 200)
               = Inr (PObjectId 200)"
    by (simp add: upserting_runtime_def example_runtime_def)
  have vu': "\<not> truthy (PObjectId 200) \<and> PNone = PNone \<longrightarrow>
             validate_assignment upserting_runtime (o_class (w_heap example_world 0)) ''id'' (PObjectId 5)
               = Inr (PObjectId 5)"
    by simp
  have ve: "truthy PNone \<longrightarrow>
             validate_assignment example_runtime (o_class (w_heap example_world 0)) ''id'' PNone = Inr PNone"
    by simp
  have ve': "\<not> truthy PNone \<and> PNone = PNone \<longrightarrow>
             validate_assignment example_runtime (o_class (w_heap example_world 0)) ''id'' (PObjectId 5)
               = Inr (PObjectId 5)"
    by (simp add: example_runtime_def)
  have vk: "truthy PNone \<longrightarrow>
             validate_assignment example_runtime (o_class (w_heap example_world 1)) ''id'' PNone = Inr PNone"
    by simp
  have vk': "\<not> truthy PNone \<and> PObjectId 5 = PNone \<longrightarrow>
             validate_assignment example_runtime (o_class (w_heap example_world 1)) ''id'' PNone = Inr PNone"
    by simp
  from replace_sets_identifier[OF cu msu muu ru i1 i0 vu vu']
  have 1: "\<exists>w'. Document_replace upserting_runtime 1 0 example_world = (Inr 0, w') \<and>
         attr_id (w_heap w' 0) = Inr (PObjectId 200)"
    by auto
  from replace_sets_identifier[OF ce1 mse mue re i1 i0 ve ve']
  have 2: "\<exists>w'. Document_replace example_runtime 1 0 example_world = (Inr 0, w') \<and>
         attr_id (w_heap w' 0) = Inr (PObjectId 5)"
    by auto
  from replace_sets_identifier[OF ce0 mue mse re' i0 i1 vk vk']
  have 3: "\<exists>w'. Document_replace example_runtime 0 1 example_world = (Inr 1, w') \<and>
         w_heap w' = w_heap example_world"
    by auto
  from 1 2 3 show ?thesis by simp
qed

lemma new_instance_frame:
  "new_instance rt cls found w = (res, w') \<Longrightarrow>
     w_log w' = w_log w \<and> w_db w' = w_db w \<and> w_collection w' = w_collection w"
  by (auto simp add: new_instance_def split: option.splits sum.splits)

lemma swap_dict_simps:
  "w_log (swap_dict t s w) = w_log w" "w_next (swap_dict t s w) = w_next w"
  "w_heap (swap_dict t s w) t = (w_heap w t)\<lparr>o_dict := o_dict (w_heap w s)\<rparr>"
  "r \<noteq> t \<Longrightarrow> w_heap (swap_dict t s w) r = w_heap w r"
  by (simp_all add: swap_dict_def)

lemma Document_reload_log:
  "Document_reload rt self w = (res, w') \<Longrightarrow> \<exists>rest. w_log w' = w_log w @ rest"
  by (auto simp add: Document_reload_def send_simps swap_dict_simps
      split: sum.splits if_splits prod.splits
      dest!: Document_collection_frame new_instance_frame)

subsection \<open>Claim C8\<close>

text \<open>
  C8. \<^verbatim>\<open>update\<close> on an instance whose \<^verbatim>\<open>id\<close> is \<^verbatim>\<open>None\<close> raises an \<^verbatim>\<open>AssertionError\<close> and
  leaves the state as it was, so nothing is sent. On an instance whose \<^verbatim>\<open>id\<close> is set and
  whose collection resolves, the next request sent is \<^verbatim>\<open>update_one({"_id": self.id}, update)\<close>;
  when the driver answers it with a modified count, the call without \<^verbatim>\<open>reload\<close> returns
  whether that count is 1, and so does the call with \<^verbatim>\<open>reload\<close> whenever the reload returns.
\<close>

theorem update_requires_identifier:
  assumes "attr_id (w_heap w self) = Inr sid"
  shows "(sid = PNone \<longrightarrow> Document_update rt self upd reload w = (Inl AssertionError, w)) \<and>
         (sid \<noteq> PNone \<longrightarrow>
            (\<forall>coll w1 modified_count.
               Document_collection rt (o_class (w_heap w self)) w = (Inr coll, w1) \<and>
               update_one rt (w_log w1) coll [(''_id'', sid)] upd = Inr modified_count \<longrightarrow>
               (\<exists>res w' rest.
                  Document_update rt self upd reload w = (res, w') \<and>
                  w_log w' = w_log w @ UpdateOne coll [(''_id'', sid)] upd # rest \<and>
                  (\<not> reload \<longrightarrow> res = Inr (modified_count = 1) \<and> rest = []) \<and>
                  (reload \<longrightarrow>
                     (case Document_reload rt self (send (UpdateOne coll [(''_id'', sid)] upd) w1) of
                        (Inl e, w3) \<Rightarrow> res = Inl e
                      | (Inr u, w3) \<Rightarrow> res = Inr (modified_count = 1))))))"
proof (cases "sid = PNone")
  case True
  then show ?thesis using assms by (simp add: Document_update_def)
next
  case False
  have "\<exists>res w' rest.
          Document_update rt self upd reload w = (res, w') \<and>
          w_log w' = w_log w @ UpdateOne coll [(''_id'', sid)] upd # rest \<and>
          (\<not> reload \<longrightarrow> res = Inr (modified_count = 1) \<and> rest = []) \<and>
          (reload \<longrightarrow>
             (case Document_reload rt self (send (UpdateOne coll [(''_id'', sid)] upd) w1) of
                (Inl e, w3) \<Rightarrow> res = Inl e
              | (Inr u, w3) \<Rightarrow> res = Inr (modified_count = 1)))"
    if c: "Document_collection rt (o_class (w_heap w self)) w = (Inr coll, w1)"
      and u: "update_one rt (w_log w1) coll [(''_id'', sid)] upd = Inr modified_count"
    for coll w1 modified_count
  proof -
    from Document_collection_frame[OF c]
    have fr: "w_heap w1 = w_heap w" "w_log w1 = w_log w" by simp_all
    let ?w2 = "send (UpdateOne coll [(''_id'', sid)] upd) w1"
    show ?thesis
    proof (cases reload)
      case True
      obtain r3 w3 where rl: "Document_reload rt self ?w2 = (r3, w3)"
        by (cases "Document_reload rt self ?w2")
      from Document_reload_log[OF rl] obtain rest where
        lg: "w_log w3 = w_log w @ UpdateOne coll [(''_id'', sid)] upd # rest"
        by (auto simp add: send_simps fr)
      show ?thesis
        unfolding Document_update_def c
        using True False assms u fr rl lg
        by (cases r3) (simp_all add: Let_def)
    next
      case nr: False
      show ?thesis
        unfolding Document_update_def c
        using nr False assms u fr
        by (simp add: Let_def send_simps)
    qed
  qed
  with False show ?thesis by blast
qed

lemma example_collection_A_idle:
  "fst (Document_collection idle_runtime example_A example_world) = Inr handle_A"
  by code_simp

theorem update_requires_identifier_witness:
  "Document_update example_runtime 0 set_name False example_world = (Inl AssertionError, example_world) \<and>
   (\<exists>w'. Document_update example_runtime 1 set_name False example_world = (Inr True, w') \<and>
         w_log w' = [UpdateOne handle_A [(''_id'', PObjectId 5)] set_name]) \<and>
   (\<exists>w'. Document_update idle_runtime 1 set_name False example_world = (Inr False, w') \<and>
         w_log w' = [UpdateOne handle_A [(''_id'', PObjectId 5)] set_name])"
proof -
  have c1: "o_class (w_heap example_world 1) = example_A" by (simp add: example_world_def saved_def)
  have lg: "w_log example_world = []" by (simp add: example_world_def)
  have i0: "attr_id (w_heap example_world 0) = Inr PNone"
    by (simp add: example_world_def unsaved_def attr_id_def)
  have i1: "attr_id (w_heap example_world 1) = Inr (PObjectId 5)"
    by (simp add: example_world_def saved_def attr_id_def)
  define we where "we = snd (Document_collection example_runtime example_A example_world)"
  define wi where "wi = snd (Document_collection idle_runtime example_A example_world)"
  have ce: "Document_collection example_runtime (o_class (w_heap example_world 1)) example_world
             = (Inr handle_A, we)"
    unfolding c1 we_def using example_collection_A by (simp add: prod_eq_iff)
  have ci: "Document_collection idle_runtime (o_class (w_heap example_world 1)) example_world
             = (Inr handle_A, wi)"
    unfolding c1 wi_def using example_collection_A_idle by (simp add: prod_eq_iff)
  have ue: "update_one example_runtime (w_log we) handle_A [(''_id'', PObjectId 5)] set_name = Inr 1"
    by (simp add: example_runtime_def)
  have ui: "update_one idle_runtime (w_log wi) handle_A [(''_id'', PObjectId 5)] set_name = Inr 0"
    by (simp add: idle_runtime_def)
  from update_requires_identifier[OF i0, of example_runtime set_name False]
  have 1: "Document_update example_runtime 0 set_name False example_world
             = (Inl AssertionError, example_world)"
    by simp
  from update_requires_identifier[OF i1, of example_runtime set_name False] ce ue lg
  have 2: "\<exists>w'. Document_update example_runtime 1 set_name False example_world = (Inr True, w') \<and>
         w_log w' = [UpdateOne handle_A [(''_id'', PObjectId 5)] set_name]"
    by fastforce
  from update_requires_identifier[OF i1, of idle_runtime set_name False] ci ui lg
  have 3: "\<exists>w'. Document_update idle_runtime 1 set_name False example_world = (Inr False, w') \<and>
         w_log w' = [UpdateOne handle_A [(''_id'', PObjectId 5)] set_name]"
    by fastforce
  from 1 2 3 show ?thesis by simp
qed

lemma get_collection_next:
  "get_collection rt cls meta w = (res, w1) \<Longrightarrow> w_next w \<le> w_next w1"
  by (auto simp add: get_collection_def Let_def split: sum.splits)

lemma Document_collection_next:
  "Document_collection rt cls w = (res, w1) \<Longrightarrow> w_next w \<le> w_next w1"
  by (auto simp add: Document_collection_def split: sum.splits option.splits if_splits
      dest: get_collection_next)

lemma new_instance_None:
  "new_instance rt cls None w =
     (Inl (TypeError ''argument after ** must be a mapping, not NoneType''), w)"
  by (simp add: new_instance_def)

lemma new_instance_Some:
  "construct rt cls d = Inr dict' \<Longrightarrow>
     new_instance rt cls (Some d) w =
       (Inr (w_next w),
        w\<lparr>w_heap := (w_heap w)(w_next w := \<lparr>o_class = cls, o_dict = dict'\<rparr>),
          w_next := Suc (w_next w)\<rparr>)"
  by (simp add: new_instance_def)

subsection \<open>Claim C10\<close>

text \<open>
  C10. When \<^verbatim>\<open>reload\<close> is called on an instance whose \<^verbatim>\<open>id\<close> is set and the driver's
  \<^verbatim>\<open>find_one\<close> answers \<^verbatim>\<open>None\<close> (no stored document has that identifier), the call raises the
  \<^verbatim>\<open>TypeError\<close> of unpacking \<^verbatim>\<open>None\<close> and changes no instance; \<^verbatim>\<open>find_one\<close> on the class with
  the same filter and the same answer returns \<^verbatim>\<open>None\<close> instead.
\<close>

theorem reload_absent_raises:
  assumes "attr_id (w_heap w self) = Inr sid"
    and "sid \<noteq> PNone"
    and "Document_collection rt (o_class (w_heap w self)) w = (Inr coll, w1)"
    and "find_one rt (w_log w1) coll (Some [(''_id'', sid)]) = Inr None"
  shows "(\<exists>w'. Document_reload rt self w =
                 (Inl (TypeError ''argument after ** must be a mapping, not NoneType''), w') \<and>
               w_heap w' = w_heap w \<and>
               w_log w' = w_log w @ [FindOne coll (Some [(''_id'', sid)])]) \<and>
         (\<exists>w'. Document_find_one rt (o_class (w_heap w self)) (Some [(''_id'', sid)]) w =
                 (Inr None, w') \<and>
               w_log w' = w_log w @ [FindOne coll (Some [(''_id'', sid)])])"
proof -
  from Document_collection_frame[OF assms(3)]
  have fr: "w_heap w1 = w_heap w" "w_log w1 = w_log w" by simp_all
  have 1: "\<exists>w'. Document_reload rt self w =
                 (Inl (TypeError ''argument after ** must be a mapping, not NoneType''), w') \<and>
               w_heap w' = w_heap w \<and>
               w_log w' = w_log w @ [FindOne coll (Some [(''_id'', sid)])]"
    unfolding Document_reload_def assms(3)
    using assms(1,2,4) fr by (simp add: new_instance_None send_simps)
  have 2: "\<exists>w'. Document_find_one rt (o_class (w_heap w self)) (Some [(''_id'', sid)]) w =
                 (Inr None, w') \<and>
               w_log w' = w_log w @ [FindOne coll (Some [(''_id'', sid)])]"
    unfolding Document_find_one_def assms(3)
    using assms(4) fr by (simp add: Let_def send_simps)
  from 1 2 show ?thesis by simp
qed

lemma example_collection_A_empty_store:
  "fst (Document_collection empty_store_runtime example_A example_world) = Inr handle_A"
  by code_simp

theorem reload_absent_raises_witness:
  "(\<exists>w'. Document_reload empty_store_runtime 1 example_world =
           (Inl (TypeError ''argument after ** must be a mapping, not NoneType''), w') \<and>
         w_heap w' = w_heap example_world) \<and>
   (\<exists>w'. Document_find_one empty_store_runtime example_A (Some [(''_id'', PObjectId 5)]) example_world =
           (Inr None, w'))"
proof -
  have c1: "o_class (w_heap example_world 1) = example_A" by (simp add: example_world_def saved_def)
  have i1: "attr_id (w_heap example_world 1) = Inr (PObjectId 5)"
    by (simp add: example_world_def saved_def attr_id_def)
  have ne: "PObjectId 5 \<noteq> PNone" by simp
  define w1 where "w1 = snd (Document_collection empty_store_runtime example_A example_world)"
  have c: "Document_collection empty_store_runtime (o_class (w_heap example_world 1)) example_world
             = (Inr handle_A, w1)"
    unfolding c1 w1_def using example_collection_A_empty_store by (simp add: prod_eq_iff)
  have f: "find_one empty_store_runtime (w_log w1) handle_A (Some [(''_id'', PObjectId 5)]) = Inr None"
    by (simp add: empty_store_runtime_def)
  from reload_absent_raises[OF i1 ne c f] show ?thesis
    unfolding c1 by blast
qed

subsection \<open>Claim C6\<close>

text \<open>
  C6, as \<^verbatim>\<open>reload\<close> has it. Let \<^verbatim>\<open>reload\<close> be called on an allocated instance whose \<^verbatim>\<open>id\<close>
  is set, let the driver answer the query \<^verbatim>\<open>find_one({"_id": self.id})\<close> with a document, and
  let pydantic build a record from it. Then the call returns; the one request it sends is
  that query; the object at the reference \<^verbatim>\<open>self\<close> keeps its class and has the \<^verbatim>\<open>__dict__\<close>
  of the new record, so whoever holds the reference reads the fetched fields; and every
  other instance that existed before the call is unchanged. The identifier after the call
  is the one of the new record: it is the identifier the instance had exactly when the
  record built from the answer carries it.
\<close>

theorem reload_in_place:
  assumes "self < w_next w"
    and "attr_id (w_heap w self) = Inr sid"
    and "sid \<noteq> PNone"
    and "Document_collection rt (o_class (w_heap w self)) w = (Inr coll, w1)"
    and "find_one rt (w_log w1) coll (Some [(''_id'', sid)]) = Inr (Some d)"
    and "construct rt (o_class (w_heap w self)) d = Inr dict'"
  shows "\<exists>w'. Document_reload rt self w = (Inr (), w') \<and>
           w_heap w' self = \<lparr>o_class = o_class (w_heap w self), o_dict = dict'\<rparr> \<and>
           (attr_id (w_heap w' self) = Inr sid) = (map_of dict' ''id'' = Some sid) \<and>
           (\<forall>r. r < w_next w \<and> r \<noteq> self \<longrightarrow> w_heap w' r = w_heap w r) \<and>
           w_log w' = w_log w @ [FindOne coll (Some [(''_id'', sid)])]"
proof -
  from Document_collection_frame[OF assms(4)]
  have fr: "w_heap w1 = w_heap w" "w_log w1 = w_log w" by simp_all
  from Document_collection_next[OF assms(4)] assms(1)
  have lt: "self < w_next w1" "w_next w \<le> w_next w1" by simp_all
  let ?w2 = "send (FindOne coll (Some [(''_id'', sid)])) w1"
  have ni: "new_instance rt (o_class (w_heap w self)) (Some d) ?w2 =
       (Inr (w_next w1),
        ?w2\<lparr>w_heap := (w_heap ?w2)(w_next w1 := \<lparr>o_class = o_class (w_heap w self), o_dict = dict'\<rparr>),
          w_next := Suc (w_next w1)\<rparr>)"
    using new_instance_Some[OF assms(6), of ?w2] by (simp add: send_simps)
  show ?thesis
    unfolding Document_reload_def assms(4)
    using assms(2,3,5) fr lt ni
    by (auto simp add: send_simps swap_dict_def attr_id_def split: option.splits)
qed

theorem reload_in_place_witness:
  "\<exists>w'. Document_reload example_runtime 1 example_world = (Inr (), w') \<and>
        w_heap w' 1 = \<lparr>o_class = example_A, o_dict = reloaded_dict\<rparr> \<and>
        attr_id (w_heap w' 1) = Inr (PObjectId 5) \<and>
        w_heap w' 0 = unsaved \<and> w_heap w' 2 = blank \<and>
        w_log w' = [FindOne handle_A (Some [(''_id'', PObjectId 5)])]"
proof -
  have a: "(1::nat) < w_next example_world" by (simp add: example_world_def)
  have c1: "o_class (w_heap example_world 1) = example_A" by (simp add: example_world_def saved_def)
  have i1: "attr_id (w_heap example_world 1) = Inr (PObjectId 5)"
    by (simp add: example_world_def saved_def attr_id_def)
  have ne: "PObjectId 5 \<noteq> PNone" by simp
  define w1 where "w1 = snd (Document_collection example_runtime example_A example_world)"
  have c: "Document_collection example_runtime (o_class (w_heap example_world 1)) example_world
             = (Inr handle_A, w1)"
    unfolding c1 w1_def using example_collection_A by (simp add: prod_eq_iff)
  have f: "find_one example_runtime (w_log w1) handle_A (Some [(''_id'', PObjectId 5)])
             = Inr (Some stored_document)"
    by (simp add: example_runtime_def)
  have k: "construct example_runtime (o_class (w_heap example_world 1)) stored_document
             = Inr reloaded_dict"
    unfolding c1 by code_simp
  have m: "map_of reloaded_dict ''id'' = Some (PObjectId 5)" by code_simp
  have h: "w_heap example_world 0 = unsaved" "w_heap example_world 2 = blank"
    "w_next example_world = 3" "w_log example_world = []"
    by (simp_all add: example_world_def)
  from reload_in_place[OF a i1 ne c f k] obtain w' where
    r: "Document_reload example_runtime 1 example_world = (Inr (), w')"
    and s: "w_heap w' 1 = \<lparr>o_class = o_class (w_heap example_world 1), o_dict = reloaded_dict\<rparr>"
    and i: "(attr_id (w_heap w' 1) = Inr (PObjectId 5)) = (map_of reloaded_dict ''id'' = Some (PObjectId 5))"
    and o: "\<forall>r. r < w_next example_world \<and> r \<noteq> 1 \<longrightarrow> w_heap w' r = w_heap example_world r"
    and l: "w_log w' = w_log example_world @ [FindOne handle_A (Some [(''_id'', PObjectId 5)])]"
    by blast
  from o h have "w_heap w' 0 = unsaved" "w_heap w' 2 = blank" by simp_all
  moreover from i m have "attr_id (w_heap w' 1) = Inr (PObjectId 5)" by simp
  ultimately show ?thesis using r s l c1 h by simp
qed

text \<open>
  C6 as it is stated fails when the answer does not carry the identifier: the instance at
  reference 1 has the identifier 5 before the call, the call returns, and the identifier
  is \<^verbatim>\<open>None\<close> afterwards.
\<close>

theorem reload_changes_identifier:
  "attr_id (w_heap example_world 1) = Inr (PObjectId 5) \<and>
   fst (Document_reload projecting_runtime 1 example_world) = Inr () \<and>
   attr_id (w_heap (snd (Document_reload projecting_runtime 1 example_world)) 1) = Inr PNone"
  by code_simp

subsection \<open>Claim C7\<close>

text \<open>
  C7. Let \<^verbatim>\<open>cls.find_one_and_replace(filter, replacement, return_document)\<close> reach the driver
  with the data of the replacement (its partial document when it is an instance), let the
  driver answer with a document, and let pydantic build a record of \<^verbatim>\<open>cls\<close> from it. If
  \<^verbatim>\<open>return_document\<close> is \<^verbatim>\<open>AFTER\<close> and the replacement is an (allocated) instance of \<^verbatim>\<open>cls\<close>,
  the call returns the reference of the replacement itself, and the object there keeps its
  class and has the \<^verbatim>\<open>__dict__\<close> of the new record. In every other case the call returns a
  reference that did not exist before the call, to an object of class \<^verbatim>\<open>cls\<close> with that
  \<^verbatim>\<open>__dict__\<close>, and no instance that existed before has changed. Instances other than the
  replacement never change.
\<close>

theorem find_one_and_replace_in_place:
  assumes "(case replacement of
              RInstance r \<Rightarrow> Document_mongo rt (w_heap w r) None None
            | RDict d0 \<Rightarrow> Inr d0) = Inr data"
    and "(case replacement of RInstance r \<Rightarrow> r < w_next w | RDict d0 \<Rightarrow> True)"
    and "Document_collection rt cls w = (Inr coll, w1)"
    and "find_one_and_replace rt (w_log w1) coll flt data return_document = Inr (Some d)"
    and "construct rt cls d = Inr dict'"
  shows "\<exists>res w'.
           Document_find_one_and_replace rt cls flt replacement return_document w = (Inr (Some res), w') \<and>
           (return_document \<and> isinstance rt w replacement cls \<longrightarrow>
              replacement = RInstance res \<and>
              w_heap w' res = (w_heap w res)\<lparr>o_dict := dict'\<rparr>) \<and>
           (\<not> (return_document \<and> isinstance rt w replacement cls) \<longrightarrow>
              w_next w \<le> res \<and>
              w_heap w' res = \<lparr>o_class = cls, o_dict = dict'\<rparr> \<and>
              (\<forall>r. r < w_next w \<longrightarrow> w_heap w' r = w_heap w r)) \<and>
           (\<forall>r. r < w_next w \<and> RInstance r \<noteq> replacement \<longrightarrow> w_heap w' r = w_heap w r) \<and>
           w_log w' = w_log w @ [FindOneAndReplace coll flt data return_document]"
proof -
  from Document_collection_frame[OF assms(3)]
  have fr: "w_heap w1 = w_heap w" "w_log w1 = w_log w" by simp_all
  from Document_collection_next[OF assms(3)]
  have le: "w_next w \<le> w_next w1" .
  let ?w2 = "send (FindOneAndReplace coll flt data return_document) w1"
  have ni: "new_instance rt cls (Some d) ?w2 =
       (Inr (w_next w1),
        ?w2\<lparr>w_heap := (w_heap ?w2)(w_next w1 := \<lparr>o_class = cls, o_dict = dict'\<rparr>),
          w_next := Suc (w_next w1)\<rparr>)"
    using new_instance_Some[OF assms(5), of ?w2] by (simp add: send_simps)
  show ?thesis
  proof (cases replacement)
    case (RDict d0)
    with assms(1) have dd: "data = d0" by simp
    show ?thesis
      unfolding Document_find_one_and_replace_def
      using RDict dd assms(3,4) fr le ni
      by (auto simp add: Let_def send_simps isinstance_def)
  next
    case (RInstance r)
    with assms(1) have m: "Document_mongo rt (w_heap w r) None None = Inr data" by simp
    from RInstance assms(2) le have lt: "r < w_next w" "r \<noteq> w_next w1" by simp_all
    show ?thesis
      unfolding Document_find_one_and_replace_def
      using RInstance m assms(3,4) fr le lt ni
      by (auto simp add: Let_def send_simps isinstance_def swap_dict_def)
  qed
qed

theorem find_one_and_replace_in_place_witness:
  "(\<exists>w'. Document_find_one_and_replace example_runtime example_A [(''name'', PStr ''Grace'')]
            (RInstance 1) True example_world = (Inr (Some 1), w') \<and>
         w_heap w' 1 = \<lparr>o_class = example_A, o_dict = reloaded_dict\<rparr>) \<and>
   (\<exists>res w'. Document_find_one_and_replace example_runtime example_A [(''name'', PStr ''Grace'')]
            (RInstance 1) False example_world = (Inr (Some res), w') \<and>
         3 \<le> res \<and> w_heap w' res = \<lparr>o_class = example_A, o_dict = reloaded_dict\<rparr> \<and>
         w_heap w' 1 = saved) \<and>
   (\<exists>res w'. Document_find_one_and_replace example_runtime example_A [(''name'', PStr ''Grace'')]
            (RDict [(''name'', PStr ''Ada'')]) True example_world = (Inr (Some res), w') \<and>
         3 \<le> res \<and> w_heap w' res = \<lparr>o_class = example_A, o_dict = reloaded_dict\<rparr>)"
proof -
  let ?flt = "[(''name'', PStr ''Grace'')]"
  let ?ds = "[(''_id'', PObjectId 5), (''name'', PStr ''Ada''), (''years'', PInt 36)]"
  let ?dd = "[(''name'', PStr ''Ada'')]"
  have h: "w_heap example_world 1 = saved" "w_next example_world = 3"
    "w_heap example_world (Suc 0) = saved"
    by (simp_all add: example_world_def)
  have s: "saved = \<lparr>o_class = example_A,
            o_dict = [(''id'', PObjectId 5), (''name'', PStr ''Ada''), (''age'', PInt 36)]\<rparr>"
    by (simp add: saved_def)
  define w1 where "w1 = snd (Document_collection example_runtime example_A example_world)"
  have c: "Document_collection example_runtime example_A example_world = (Inr handle_A, w1)"
    unfolding w1_def using example_collection_A by (simp add: prod_eq_iff)
  have mi: "(case RInstance 1 of
              RInstance r \<Rightarrow> Document_mongo example_runtime (w_heap example_world r) None None
            | RDict d0 \<Rightarrow> Inr d0) = Inr ?ds"
    by (simp add: h) code_simp
  have md: "(case RDict ?dd of
              RInstance r \<Rightarrow> Document_mongo example_runtime (w_heap example_world r) None None
            | RDict d0 \<Rightarrow> Inr d0) = Inr ?dd"
    by simp
  have ai: "(case RInstance 1 of RInstance r \<Rightarrow> r < w_next example_world | RDict d0 \<Rightarrow> True)"
    by (simp add: h)
  have ad: "(case RDict ?dd of RInstance r \<Rightarrow> r < w_next example_world | RDict d0 \<Rightarrow> True)"
    by simp
  have f: "\<And>data after. find_one_and_replace example_runtime (w_log w1) handle_A ?flt data after
             = Inr (Some stored_document)"
    by (simp add: example_runtime_def)
  have k: "construct example_runtime example_A stored_document = Inr reloaded_dict"
    by code_simp
  have ii: "isinstance example_runtime example_world (RInstance 1) example_A"
    by (simp add: isinstance_def h) code_simp
  have id: "\<not> isinstance example_runtime example_world (RDict ?dd) example_A"
    by (simp add: isinstance_def)
  from find_one_and_replace_in_place[OF mi ai c f k, of True] ii
  have 1: "\<exists>w'. Document_find_one_and_replace example_runtime example_A ?flt
            (RInstance 1) True example_world = (Inr (Some 1), w') \<and>
         w_heap w' 1 = \<lparr>o_class = example_A, o_dict = reloaded_dict\<rparr>"
    by (auto simp add: h s)
  from find_one_and_replace_in_place[OF mi ai c f k, of False]
  have 2: "\<exists>res w'. Document_find_one_and_replace example_runtime example_A ?flt
            (RInstance 1) False example_world = (Inr (Some res), w') \<and>
         3 \<le> res \<and> w_heap w' res = \<lparr>o_class = example_A, o_dict = reloaded_dict\<rparr> \<and>
         w_heap w' 1 = saved"
    by (auto simp add: h)
  from find_one_and_replace_in_place[OF md ad c f k, of True] id
  have 3: "\<exists>res w'. Document_find_one_and_replace example_runtime example_A ?flt
            (RDict ?dd) True example_world = (Inr (Some res), w') \<and>
         3 \<le> res \<and> w_heap w' res = \<lparr>o_class = example_A, o_dict = reloaded_dict\<rparr>"
    by (auto simp add: h)
  from 1 2 3 show ?thesis by simp
qed

subsection \<open>Claim C9\<close>

text \<open>
  The cache as the code has it: when the first class of \<^verbatim>\<open>__mro__\<close> that binds
  \<^verbatim>\<open>__collection__\<close> binds it to a collection object of the current database, that object is
  returned and nothing changes; when it binds it to \<^verbatim>\<open>None\<close>, or to an object of another
  database, a new object is made from the class's own \<^verbatim>\<open>__mongo__\<close> and bound on the class.
\<close>

lemma Document_collection_cached:
  assumes "dunder_mongo cls = Inr meta"
    and "class_attr (w_collection w) (mro rt cls) = Some (Some cached)"
    and "Document_db rt cls w = Inr db"
  shows "Document_collection rt cls w =
           (if h_database cached = db then (Inr cached, w) else get_collection rt cls meta w)"
  using assms by (simp add: Document_collection_def)

lemma Document_collection_fresh:
  assumes "dunder_mongo cls = Inr meta"
    and "class_attr (w_collection w) (mro rt cls) = Some None"
    and "Document_db rt cls w = Inr db"
    and "getattr meta Collection = Some name" and "getattr meta CodecOptions = Some co"
    and "getattr meta ReadPreference = Some rp" and "getattr meta WriteConcern = Some wc"
    and "getattr meta ReadConcern = Some rc"
  shows "Document_collection rt cls w =
           (Inr \<lparr>h_ident = w_next w, h_database = db, h_name = name, h_codec_options = co,
                 h_read_preference = rp, h_write_concern = wc, h_read_concern = rc\<rparr>,
            w\<lparr>w_collection := (w_collection w)(cls := Some (Some
                 \<lparr>h_ident = w_next w, h_database = db, h_name = name, h_codec_options = co,
                  h_read_preference = rp, h_write_concern = wc, h_read_concern = rc\<rparr>)),
              w_next := Suc (w_next w)\<rparr>)"
  using assms by (simp add: Document_collection_def get_collection_def meta_attr_def Let_def)

text \<open>
  C9 (the code at the failing input). \<^verbatim>\<open>class A(Document)\<close> stores in collection \<^verbatim>\<open>a\<close>,
  \<^verbatim>\<open>class B(A)\<close> in collection \<^verbatim>\<open>b\<close>, and \<^verbatim>\<open>Document.use(db)\<close> has been called. After
  \<^verbatim>\<open>A.collection()\<close>, the call \<^verbatim>\<open>B.collection()\<close> returns the collection object cached on
  \<^verbatim>\<open>A\<close>, named \<^verbatim>\<open>a\<close>, although the \<^verbatim>\<open>__mongo__\<close> of \<^verbatim>\<open>B\<close> names \<^verbatim>\<open>b\<close>; \<^verbatim>\<open>B\<close> gets no binding of
  its own. Called first, \<^verbatim>\<open>B.collection()\<close> returns an object for \<^verbatim>\<open>b\<close>.
\<close>

theorem collection_shared_with_subclass:
  "fst (Document_collection example_runtime example_A example_world) = Inr handle_A \<and>
   fst (Document_collection example_runtime example_B
          (snd (Document_collection example_runtime example_A example_world))) = Inr handle_A \<and>
   h_name handle_A = PStr ''a'' \<and>
   dunder_mongo example_B =
     Inr \<lparr>collection = Some (PStr ''b''), codec_options = Some (PObject 1),
          read_preference = Some PNone, write_concern = Some PNone,
          read_concern = Some PNone\<rparr> \<and>
   w_collection (snd (Document_collection example_runtime example_B
          (snd (Document_collection example_runtime example_A example_world)))) example_B = None \<and>
   fst (Document_collection example_runtime example_B example_world) = Inr handle_B \<and>
   h_name handle_B = PStr ''b''"
  by code_simp

end
